theory Spec2Isabelle
  imports Complex_Main "HOL-Library.Sublist"
begin

section \<open>Python values and MongoDB documents\<close>

text \<open>
  The handlers of the repository work on MongoDB documents, which Python sees as
  dictionaries from field names to values. A field can be absent, hold an explicit null
  (Python \<open>None\<close>), a scalar or an array. Only the value kinds that the modelled
  collections hold are represented; the only arrays are arrays of strings (the \<open>sedes\<close>
  list of a franchise). An \<open>ObjectId\<close> is represented by its hexadecimal text, a
  \<open>datetime\<close> by an integer count of microseconds.
\<close>

datatype val = VNull | VBool bool | VInt int | VStr string | VOid string | VArr "string list"

type_synonym doc = "string \<rightharpoonup> val"

text \<open>\<open>d.get(k)\<close>: an absent key reads as \<open>None\<close>.\<close>

definition py_get :: "doc \<Rightarrow> string \<Rightarrow> val" where
  "py_get d k = (case d k of None \<Rightarrow> VNull | Some v \<Rightarrow> v)"

text \<open>\<open>d.get(k, default)\<close>: only an absent key reads as the default.\<close>

definition py_get_default :: "doc \<Rightarrow> string \<Rightarrow> val \<Rightarrow> val" where
  "py_get_default d k dflt = (case d k of None \<Rightarrow> dflt | Some v \<Rightarrow> v)"

text \<open>Python truthiness, as \<open>if x:\<close> and \<open>x or y\<close> test it.\<close>

fun truthy :: "val \<Rightarrow> bool" where
  "truthy VNull = False"
| "truthy (VBool b) = b"
| "truthy (VInt n) = (n \<noteq> 0)"
| "truthy (VStr s) = (s \<noteq> [])"
| "truthy (VOid h) = True"
| "truthy (VArr xs) = (xs \<noteq> [])"

definition py_or :: "val \<Rightarrow> val \<Rightarrow> val" where
  "py_or a b = (if truthy a then a else b)"

section \<open>MongoDB queries and updates\<close>

text \<open>
  The query documents that the handlers build. \<open>QEmpty\<close> is the empty filter \<open>{}\<close>;
  \<open>QFld f c\<close> is \<open>{f: c}\<close>; \<open>QAnd\<close> and \<open>QOr\<close> are \<open>$and\<close> and \<open>$or\<close>. A
  \<open>$regex\<close> condition carries the compiled pattern as a predicate on strings: the
  regular-expression engine belongs to the store.
\<close>

datatype cond = CEq val | CNe val | CExists bool | CRegex "string \<Rightarrow> bool"

datatype query = QEmpty | QFld string cond | QAnd "query list" | QOr "query list"

text \<open>
  Equality match \<open>{f: v}\<close>: a null operand matches an absent or null field; an array
  field matches when it equals the operand or contains it.
\<close>

fun eq_match :: "val option \<Rightarrow> val \<Rightarrow> bool" where
  "eq_match None v = (v = VNull)"
| "eq_match (Some (VArr xs)) v =
     (case v of VStr s \<Rightarrow> s \<in> set xs | VArr ys \<Rightarrow> xs = ys | _ \<Rightarrow> False)"
| "eq_match (Some x) v = (x = v)"

fun cond_holds :: "val option \<Rightarrow> cond \<Rightarrow> bool" where
  "cond_holds x (CEq v) = eq_match x v"
| "cond_holds x (CNe v) = (\<not> eq_match x v)"
| "cond_holds x (CExists b) = ((x \<noteq> None) = b)"
| "cond_holds x (CRegex p) =
     (case x of Some (VStr s) \<Rightarrow> p s | Some (VArr xs) \<Rightarrow> list_ex p xs | _ \<Rightarrow> False)"

fun matches :: "doc \<Rightarrow> query \<Rightarrow> bool" where
  "matches d QEmpty = True"
| "matches d (QFld f c) = cond_holds (d f) c"
| "matches d (QAnd qs) = list_all (matches d) qs"
| "matches d (QOr qs) = list_ex (matches d) qs"

text \<open>A collection is the list of its documents in natural order.\<close>

definition find_one :: "query \<Rightarrow> doc list \<Rightarrow> doc option" where
  "find_one q c = List.find (\<lambda>d. matches d q) c"

definition find_many :: "query \<Rightarrow> doc list \<Rightarrow> doc list" where
  "find_many q c = filter (\<lambda>d. matches d q) c"

text \<open>
  \<open>update_one\<close> applies the update to the first matching document. An update operator
  can be rejected by the store (a write error, raised to the handler): the update then
  is \<open>None\<close> and no document changes.
\<close>

fun update_one :: "query \<Rightarrow> (doc \<Rightarrow> doc option) \<Rightarrow> doc list \<Rightarrow> doc list option" where
  "update_one q u [] = Some []"
| "update_one q u (d # ds) =
     (if matches d q then (case u d of None \<Rightarrow> None | Some d' \<Rightarrow> Some (d' # ds))
      else (case update_one q u ds of None \<Rightarrow> None | Some ds' \<Rightarrow> Some (d # ds')))"

text \<open>
  \<open>update_many\<close> with an update that cannot be rejected (\<open>$set\<close>, \<open>$unset\<close>);
  \<open>modified_count\<close> counts the matched documents that the update really changed.
\<close>

definition update_many :: "query \<Rightarrow> (doc \<Rightarrow> doc) \<Rightarrow> doc list \<Rightarrow> doc list" where
  "update_many q u c = map (\<lambda>d. if matches d q then u d else d) c"

definition modified_count :: "query \<Rightarrow> (doc \<Rightarrow> doc) \<Rightarrow> doc list \<Rightarrow> nat" where
  "modified_count q u c = length (filter (\<lambda>d. matches d q \<and> u d \<noteq> d) c)"

text \<open>The update operators used by the handlers.\<close>

definition op_set :: "string \<Rightarrow> val \<Rightarrow> doc \<Rightarrow> doc" where
  "op_set k v d = d(k \<mapsto> v)"

definition op_set_all :: "doc \<Rightarrow> doc \<Rightarrow> doc" where
  "op_set_all upd d = d ++ upd"

definition op_unset :: "string \<Rightarrow> doc \<Rightarrow> doc" where
  "op_unset k d = d(k := None)"

text \<open>\<open>$addToSet\<close> creates the array when the field is absent, appends the value
  when the array lacks it, and is rejected on a field that is not an array.\<close>

definition op_addToSet :: "string \<Rightarrow> string \<Rightarrow> doc \<Rightarrow> doc option" where
  "op_addToSet k x d =
     (case d k of
        None \<Rightarrow> Some (d(k \<mapsto> VArr [x]))
      | Some (VArr xs) \<Rightarrow> Some (if x \<in> set xs then d else d(k \<mapsto> VArr (xs @ [x])))
      | Some _ \<Rightarrow> None)"

text \<open>\<open>$pull\<close> removes every occurrence of the value, does nothing when the field
  is absent, and is rejected on a field that is not an array.\<close>

definition op_pull :: "string \<Rightarrow> string \<Rightarrow> doc \<Rightarrow> doc option" where
  "op_pull k x d =
     (case d k of
        None \<Rightarrow> Some d
      | Some (VArr xs) \<Rightarrow> Some (d(k \<mapsto> VArr (removeAll x xs)))
      | Some _ \<Rightarrow> None)"

section \<open>The store and the HTTP errors\<close>

record db =
  collection_franquicia :: "doc list"
  collection_locales :: "doc list"
  collection_auth :: "doc list"
  collection_clients :: "doc list"
  collection_servicios :: "doc list"

text \<open>
  The \<open>detail\<close> of an \<open>HTTPException\<close>: one constructor for each message of the
  handlers, with the values the message interpolates.
\<close>

datatype campo = Correo | Telefono

datatype detail =
    Solo_super_admin_puede_asignar_sedes
  | Solo_super_admin_puede_desasignar_sedes
  | Franquicia_no_encontrada
  | Sede_no_encontrada string
  | La_sede_ya_pertenece_a_la_franquicia val
  | La_sede_no_pertenece_a_esta_franquicia string
  | Error_al_asignar_sede
  | Error_al_quitar_sede
  | No_autorizado
  | Debes_seleccionar_una_sede
  | Error_al_crear_cliente
  | Error_al_listar_clientes
  | No_tienes_permisos_para_ver_clientes
  | Tu_usuario_no_tiene_sede_asignada
  | Pagina_no_existe int int
  | Error_al_obtener_clientes
  | Cliente_no_encontrado
  | Ya_existe_otro_cliente_con_este campo
  | Sede_no_encontrada_cliente val
  | Unprocessable_Entity
  | Error_al_editar_cliente
  | Internal_Server_Error

datatype http_error = HTTPException nat detail

section \<open>Franchise routes (\<open>admin/routes_franquicias.py\<close>)\<close>

text \<open>The two filters of the franchise routes.\<close>

abbreviation q_franquicia :: "string \<Rightarrow> query" where
  "q_franquicia F \<equiv> QFld ''franquicia_id'' (CEq (VStr F))"

abbreviation q_sede :: "string \<Rightarrow> query" where
  "q_sede S \<equiv> QFld ''sede_id'' (CEq (VStr S))"

record sede_resp =
  success :: bool
  msg_sede :: string
  msg_franquicia :: string
  usuarios_actualizados :: nat

text \<open>
  \<open>asignar_sede\<close>. The three writes follow the source's order. The franchise and site
  found by \<open>find_one\<close> hold the field the filter matched on, so they are non-empty
  dictionaries and the tests \<open>if not franquicia\<close>, \<open>if not sede\<close> fail only on
  \<open>None\<close>. A write error of \<open>$addToSet\<close> is an exception that is not an
  \<open>HTTPException\<close>: the handler answers 500.
\<close>

definition asignar_sede ::
    "string \<Rightarrow> string \<Rightarrow> doc \<Rightarrow> db \<Rightarrow> http_error + (sede_resp \<times> db)" where
  "asignar_sede franquicia_id body_sede_id current_user s =
     (if py_get current_user ''rol'' \<noteq> VStr ''super_admin''
      then Inl (HTTPException 403 Solo_super_admin_puede_asignar_sedes)
      else case find_one (QFld ''franquicia_id'' (CEq (VStr franquicia_id))) (collection_franquicia s) of
        None \<Rightarrow> Inl (HTTPException 404 Franquicia_no_encontrada)
      | Some franquicia \<Rightarrow>
        (case find_one (QFld ''sede_id'' (CEq (VStr body_sede_id))) (collection_locales s) of
           None \<Rightarrow> Inl (HTTPException 404 (Sede_no_encontrada body_sede_id))
         | Some sede \<Rightarrow>
           (let sede_franquicia_actual = py_get sede ''franquicia_id'' in
            if truthy sede_franquicia_actual \<and> sede_franquicia_actual \<noteq> VStr franquicia_id
            then Inl (HTTPException 400 (La_sede_ya_pertenece_a_la_franquicia sede_franquicia_actual))
            else
              (case update_one (QFld ''franquicia_id'' (CEq (VStr franquicia_id)))
                      (op_addToSet ''sedes'' body_sede_id) (collection_franquicia s) of
                 None \<Rightarrow> Inl (HTTPException 500 Error_al_asignar_sede)
               | Some franquicias' \<Rightarrow>
                 (case update_one (QFld ''sede_id'' (CEq (VStr body_sede_id)))
                         (\<lambda>d. Some (op_set ''franquicia_id'' (VStr franquicia_id) d))
                         (collection_locales s) of
                    None \<Rightarrow> Inl (HTTPException 500 Error_al_asignar_sede)
                  | Some locales' \<Rightarrow>
                    Inr (\<lparr>success = True, msg_sede = body_sede_id, msg_franquicia = franquicia_id,
                          usuarios_actualizados =
                            modified_count (QFld ''sede_id'' (CEq (VStr body_sede_id)))
                              (op_set ''franquicia_id'' (VStr franquicia_id)) (collection_auth s)\<rparr>,
                         s\<lparr>collection_franquicia := franquicias',
                           collection_locales := locales',
                           collection_auth :=
                             update_many (QFld ''sede_id'' (CEq (VStr body_sede_id)))
                               (op_set ''franquicia_id'' (VStr franquicia_id)) (collection_auth s)\<rparr>))))))"

text \<open>
  Python's \<open>sede_id not in franquicia.get("sedes", [])\<close>: membership in a list, the
  substring test on a string, and a \<open>TypeError\<close> (here \<open>None\<close>) on a value that is
  not a container.
\<close>

definition py_in_sedes :: "string \<Rightarrow> doc \<Rightarrow> bool option" where
  "py_in_sedes sede_id franquicia =
     (case franquicia ''sedes'' of
        None \<Rightarrow> Some False
      | Some (VArr xs) \<Rightarrow> Some (sede_id \<in> set xs)
      | Some (VStr t) \<Rightarrow> Some (sublist sede_id t)
      | Some _ \<Rightarrow> None)"

definition quitar_sede ::
    "string \<Rightarrow> string \<Rightarrow> doc \<Rightarrow> db \<Rightarrow> http_error + (sede_resp \<times> db)" where
  "quitar_sede franquicia_id sede_id current_user s =
     (if py_get current_user ''rol'' \<noteq> VStr ''super_admin''
      then Inl (HTTPException 403 Solo_super_admin_puede_desasignar_sedes)
      else case find_one (QFld ''franquicia_id'' (CEq (VStr franquicia_id))) (collection_franquicia s) of
        None \<Rightarrow> Inl (HTTPException 404 Franquicia_no_encontrada)
      | Some franquicia \<Rightarrow>
        (case py_in_sedes sede_id franquicia of
           None \<Rightarrow> Inl (HTTPException 500 Error_al_quitar_sede)
         | Some False \<Rightarrow> Inl (HTTPException 400 (La_sede_no_pertenece_a_esta_franquicia sede_id))
         | Some True \<Rightarrow>
           (case update_one (QFld ''franquicia_id'' (CEq (VStr franquicia_id)))
                   (op_pull ''sedes'' sede_id) (collection_franquicia s) of
              None \<Rightarrow> Inl (HTTPException 500 Error_al_quitar_sede)
            | Some franquicias' \<Rightarrow>
              (case update_one (QFld ''sede_id'' (CEq (VStr sede_id)))
                      (\<lambda>d. Some (op_unset ''franquicia_id'' d)) (collection_locales s) of
                 None \<Rightarrow> Inl (HTTPException 500 Error_al_quitar_sede)
               | Some locales' \<Rightarrow>
                 Inr (\<lparr>success = True, msg_sede = sede_id, msg_franquicia = franquicia_id,
                       usuarios_actualizados =
                         modified_count (QFld ''sede_id'' (CEq (VStr sede_id)))
                           (op_unset ''franquicia_id'') (collection_auth s)\<rparr>,
                      s\<lparr>collection_franquicia := franquicias',
                        collection_locales := locales',
                        collection_auth :=
                          update_many (QFld ''sede_id'' (CEq (VStr sede_id)))
                            (op_unset ''franquicia_id'') (collection_auth s)\<rparr>)))))"

section \<open>Helpers shared by the client and service routes\<close>

text \<open>
  Python's \<open>str\<close> on the values an \<open>_id\<close> holds. Every document that the modelled
  handlers insert gets its \<open>_id\<close> from the store, an \<open>ObjectId\<close>, whose text is its
  hexadecimal form. The store accepts no array as \<open>_id\<close>; on an array the function
  gives the list notation with every element in single quotes.
\<close>

fun nat_str :: "nat \<Rightarrow> string" where
  "nat_str n = (if n < 10 then [char_of (48 + n)] else nat_str (n div 10) @ [char_of (48 + n mod 10)])"

declare nat_str.simps [simp del]

fun join_comma :: "string list \<Rightarrow> string" where
  "join_comma [] = []"
| "join_comma [x] = x"
| "join_comma (x # y # ys) = x @ '', '' @ join_comma (y # ys)"

fun py_str :: "val \<Rightarrow> string" where
  "py_str VNull = ''None''"
| "py_str (VBool b) = (if b then ''True'' else ''False'')"
| "py_str (VInt n) = (if n < 0 then ''-'' @ nat_str (nat (- n)) else nat_str (nat n))"
| "py_str (VStr t) = t"
| "py_str (VOid h) = h"
| "py_str (VArr xs) = ''['' @ join_comma (map (\<lambda>x. [CHR 0x27] @ x @ [CHR 0x27]) xs) @ '']''"

text \<open>
  \<open>ObjectId(text)\<close>: accepted on 24 hexadecimal digits (the result is written in
  lower case), an \<open>InvalidId\<close> exception (here \<open>None\<close>) otherwise.
\<close>

definition hex_lower :: "char \<Rightarrow> char option" where
  "hex_lower c =
     (if c \<in> set ''0123456789abcdef'' then Some c
      else case map_of (zip ''ABCDEF'' ''abcdef'') c of Some l \<Rightarrow> Some l | None \<Rightarrow> None)"

definition py_ObjectId :: "string \<Rightarrow> val option" where
  "py_ObjectId t =
     (if length t = 24 then (case those (map hex_lower t) of None \<Rightarrow> None | Some h \<Rightarrow> Some (VOid h))
      else None)"

text \<open>\<open>model.dict(exclude_none=True)\<close> of a request payload: the fields that are not
  \<open>None\<close>. An attribute of the payload reads as \<open>py_get\<close>.\<close>

definition dict_exclude_none :: "doc \<Rightarrow> doc" where
  "dict_exclude_none p = (\<lambda>k. case p k of Some VNull \<Rightarrow> None | x \<Rightarrow> x)"

text \<open>\<open>_get_franquicia_id_de_sede\<close> (the same function in \<open>routes_clientes.py\<close> and
  \<open>routes_servicios.py\<close>).\<close>

definition get_franquicia_id_de_sede :: "val \<Rightarrow> doc list \<Rightarrow> val" where
  "get_franquicia_id_de_sede sede_id locales =
     (if \<not> truthy sede_id then VNull
      else case find_one (QFld ''sede_id'' (CEq sede_id)) locales of
        None \<Rightarrow> VNull
      | Some sede \<Rightarrow> py_get sede ''franquicia_id'')"

section \<open>Service routes (\<open>admin/routes_servicios.py\<close>)\<close>

text \<open>\<open>servicio_to_dict\<close>; a missing \<open>_id\<close> is a \<open>KeyError\<close> (here \<open>None\<close>).\<close>

definition servicio_to_dict :: "doc \<Rightarrow> doc option" where
  "servicio_to_dict d =
     (case d ''_id'' of None \<Rightarrow> None | Some v \<Rightarrow> Some (d(''_id'' \<mapsto> VStr (py_str v))))"

text \<open>\<open>_build_sede_query\<close>.\<close>

definition build_sede_query :: "val \<Rightarrow> val \<Rightarrow> query" where
  "build_sede_query sede_id franquicia_id =
     QOr ([QFld ''sede_id'' (CExists False),
           QFld ''sede_id'' (CEq VNull),
           QFld ''sede_id'' (CEq sede_id)]
          @ (if truthy franquicia_id then [QFld ''franquicia_id'' (CEq franquicia_id)] else []))"

text \<open>
  \<open>listar_servicios\<close>. The handler reads \<open>current_user["rol"]\<close> by subscript and has no
  \<open>try\<close>: a missing key and a document without \<open>_id\<close> surface as the framework's 500.
\<close>

definition listar_servicios :: "bool option \<Rightarrow> doc \<Rightarrow> db \<Rightarrow> http_error + doc list" where
  "listar_servicios activo current_user s =
     (case current_user ''rol'' of
        None \<Rightarrow> Inl (HTTPException 500 Internal_Server_Error)
      | Some rol \<Rightarrow>
        (let query =
           (if rol = VStr ''admin_sede'' then
              (let sede_id = py_get current_user ''sede_id'';
                   franquicia_id = py_or (py_get current_user ''franquicia_id'')
                                     (get_franquicia_id_de_sede sede_id (collection_locales s));
                   query = build_sede_query sede_id franquicia_id
               in case activo of
                    None \<Rightarrow> query
                  | Some a \<Rightarrow> QAnd [query, QFld ''activo'' (CEq (VBool a))])
            else
              (case activo of
                 None \<Rightarrow> QEmpty
               | Some a \<Rightarrow> QFld ''activo'' (CEq (VBool a))))
         in case those (map servicio_to_dict (find_many query (collection_servicios s))) of
              None \<Rightarrow> Inl (HTTPException 500 Internal_Server_Error)
            | Some servicios \<Rightarrow> Inr servicios))"

section \<open>Client routes (\<open>clients_service/routes_clientes.py\<close>)\<close>

definition cliente_to_dict :: "doc \<Rightarrow> doc option" where
  "cliente_to_dict c =
     (case c ''_id'' of
        None \<Rightarrow> None
      | Some v \<Rightarrow>
        (let c1 = c(''_id'' \<mapsto> VStr (py_str v))
         in Some (if c1 ''cliente_id'' = None \<or> \<not> truthy (py_get c1 ''cliente_id'')
                  then c1(''cliente_id'' \<mapsto> VStr (py_str v)) else c1)))"

text \<open>
  \<open>verificar_duplicado_cliente\<close>. The query dictionary holds \<open>$or\<close> and, when
  \<open>ObjectId(exclude_id)\<close> succeeds, \<open>_id\<close>; the store reads the two keys as a
  conjunction.
\<close>

definition verificar_duplicado_cliente :: "val \<Rightarrow> val \<Rightarrow> val \<Rightarrow> doc list \<Rightarrow> doc option" where
  "verificar_duplicado_cliente correo telefono exclude_id clients =
     (if \<not> truthy correo \<and> \<not> truthy telefono then None
      else
        (let ors = (if truthy correo then [QFld ''correo'' (CEq correo)] else [])
                   @ (if truthy telefono then [QFld ''telefono'' (CEq telefono)] else []);
             excluded = (if truthy exclude_id
                         then (case exclude_id of VStr t \<Rightarrow> py_ObjectId t | _ \<Rightarrow> None)
                         else None)
         in find_one (case excluded of
                        None \<Rightarrow> QOr ors
                      | Some oid \<Rightarrow> QAnd [QOr ors, QFld ''_id'' (CNe oid)]) clients))"

text \<open>
  \<open>crear_cliente\<close>. The identifier from \<open>generar_id\<close>, the clock and the \<open>ObjectId\<close>
  that the store gives to the inserted document are parameters. The response holds the
  inserted document with its \<open>_id\<close> as text.
\<close>

definition crear_cliente ::
    "doc \<Rightarrow> doc \<Rightarrow> string \<Rightarrow> int \<Rightarrow> string \<Rightarrow> db \<Rightarrow> http_error + (doc \<times> db)" where
  "crear_cliente cliente current_user cliente_id now oid s =
     (let rol = py_get current_user ''rol'' in
      if rol \<notin> set [VStr ''admin_sede'', VStr ''admin_franquicia'', VStr ''super_admin'']
      then Inl (HTTPException 403 No_autorizado)
      else
        (let sede_autenticada = py_get current_user ''sede_id'';
             sede_objetivo = py_or sede_autenticada (py_get cliente ''sede_id'')
         in if \<not> truthy sede_objetivo then Inl (HTTPException 400 Debes_seleccionar_una_sede)
            else case find_one (QFld ''sede_id'' (CEq sede_objetivo)) (collection_locales s) of
              None \<Rightarrow> Inl (HTTPException 400 (Sede_no_encontrada_cliente sede_objetivo))
            | Some sede_info \<Rightarrow>
              (let franquicia_id = py_get sede_info ''franquicia_id'';
                   data = (dict_exclude_none cliente)
                            (''cliente_id'' \<mapsto> VStr cliente_id,
                             ''fecha_creacion'' \<mapsto> VInt now,
                             ''creado_por'' \<mapsto> py_get_default current_user ''email'' (VStr ''unknown''),
                             ''sede_id'' \<mapsto> sede_objetivo,
                             ''franquicia_id'' \<mapsto> franquicia_id,
                             ''pais'' \<mapsto> py_get_default sede_info ''pais'' (VStr []),
                             ''notas_historial'' \<mapsto> VArr [],
                             ''es_global'' := None)
               in Inr (data(''_id'' \<mapsto> VStr oid),
                       s\<lparr>collection_clients := collection_clients s @ [data(''_id'' \<mapsto> VOid oid)]\<rparr>))))"

text \<open>The lookup that opens \<open>editar_cliente\<close>: by \<open>cliente_id\<close>, then by \<open>_id\<close>
  when the text is an \<open>ObjectId\<close>.\<close>

definition buscar_cliente :: "string \<Rightarrow> doc list \<Rightarrow> doc option" where
  "buscar_cliente ident clients =
     (case find_one (QFld ''cliente_id'' (CEq (VStr ident))) clients of
        Some c \<Rightarrow> Some c
      | None \<Rightarrow>
        (case py_ObjectId ident of
           None \<Rightarrow> None
         | Some oid \<Rightarrow> find_one (QFld ''_id'' (CEq oid)) clients))"

definition editar_cliente ::
    "string \<Rightarrow> doc \<Rightarrow> doc \<Rightarrow> int \<Rightarrow> db \<Rightarrow> http_error + db" where
  "editar_cliente ident data_update current_user now s =
     (let rol = py_get current_user ''rol'' in
      if rol \<notin> set [VStr ''admin_sede'', VStr ''super_admin'']
      then Inl (HTTPException 403 No_autorizado)
      else case buscar_cliente ident (collection_clients s) of
        None \<Rightarrow> Inl (HTTPException 404 Cliente_no_encontrado)
      | Some cliente \<Rightarrow>
        (let user_sede_id = py_get current_user ''sede_id'';
             user_franquicia_id = get_franquicia_id_de_sede user_sede_id (collection_locales s);
             cliente_franquicia_id = py_get cliente ''franquicia_id'';
             tiene_acceso = ((truthy user_franquicia_id \<and> user_franquicia_id = cliente_franquicia_id)
                             \<or> py_get cliente ''sede_id'' = user_sede_id)
         in if rol = VStr ''admin_sede'' \<and> \<not> tiene_acceso then Inl (HTTPException 403 No_autorizado)
            else case cliente ''_id'' of
              None \<Rightarrow> Inl (HTTPException 500 Error_al_editar_cliente)
            | Some cid \<Rightarrow>
              (case verificar_duplicado_cliente (py_get data_update ''correo'')
                      (py_get data_update ''telefono'') (VStr (py_str cid)) (collection_clients s) of
                 Some existing \<Rightarrow>
                   Inl (HTTPException 400 (Ya_existe_otro_cliente_con_este
                          (if py_get data_update ''correo'' = py_get existing ''correo''
                           then Correo else Telefono)))
               | None \<Rightarrow>
                 (let update_data = (dict_exclude_none data_update)
                        (''modificado_por'' \<mapsto> py_get current_user ''email'',
                         ''fecha_modificacion'' \<mapsto> VInt now,
                         ''cliente_id'' := None,
                         ''es_global'' := None)
                  in case update_one (QFld ''_id'' (CEq cid))
                            (\<lambda>d. Some (op_set_all update_data d)) (collection_clients s) of
                       None \<Rightarrow> Inl (HTTPException 500 Error_al_editar_cliente)
                     | Some clients' \<Rightarrow> Inr (s\<lparr>collection_clients := clients'\<rparr>)))))"

text \<open>
  \<open>listar_clientes\<close>. \<open>regex_i pattern\<close> is the store's case-insensitive search for
  \<open>pattern\<close>, and \<open>None\<close> when the store rejects the pattern: \<open>filtro\<close> goes
  into \<open>$regex\<close> as it is, the query then raises, and the handler answers 500. The
  bounds of \<open>limite\<close> are those of the route's declaration, which the framework
  enforces with a 422 before the handler runs.
\<close>

definition is_empty_query :: "query \<Rightarrow> bool" where
  "is_empty_query q = (case q of QEmpty \<Rightarrow> True | _ \<Rightarrow> False)"

definition filtro_condiciones :: "(string \<Rightarrow> bool) \<Rightarrow> query list" where
  "filtro_condiciones filtro_regex =
     [QFld ''nombre'' (CRegex filtro_regex),
      QFld ''correo'' (CRegex filtro_regex),
      QFld ''telefono'' (CRegex filtro_regex),
      QFld ''cliente_id'' (CRegex filtro_regex)]"

definition listar_clientes ::
    "(string \<Rightarrow> (string \<Rightarrow> bool) option) \<Rightarrow> string option \<Rightarrow> int \<Rightarrow> doc \<Rightarrow> db \<Rightarrow>
     http_error + doc list" where
  "listar_clientes regex_i filtro limite current_user s =
     (if limite < 1 \<or> 500 < limite then Inl (HTTPException 422 Unprocessable_Entity)
      else
        (let rol = py_get current_user ''rol'' in
         if rol \<notin> set [VStr ''admin_sede'', VStr ''super_admin'', VStr ''estilista'']
         then Inl (HTTPException 403 No_autorizado)
         else
           (let query0 =
                  (if rol \<in> set [VStr ''admin_sede'', VStr ''estilista''] then
                     (let sede_id = py_get current_user ''sede_id'';
                          franquicia_id = get_franquicia_id_de_sede sede_id (collection_locales s)
                      in if truthy franquicia_id
                         then QFld ''franquicia_id'' (CEq franquicia_id)
                         else QFld ''sede_id'' (CEq sede_id))
                   else QEmpty);
                query =
                  (case filtro of
                     None \<Rightarrow> Some query0
                   | Some f \<Rightarrow>
                     if f = [] then Some query0
                     else
                       (case regex_i f of
                          None \<Rightarrow> None
                        | Some filtro_regex \<Rightarrow>
                          Some (if is_empty_query query0 then QOr (filtro_condiciones filtro_regex)
                                else QAnd [query0, QOr (filtro_condiciones filtro_regex)])))
            in case query of
                 None \<Rightarrow> Inl (HTTPException 500 Error_al_listar_clientes)
               | Some q \<Rightarrow>
                 (case those (map cliente_to_dict
                                (take (nat limite) (find_many q (collection_clients s)))) of
                    None \<Rightarrow> Inl (HTTPException 500 Error_al_listar_clientes)
                  | Some clientes \<Rightarrow> Inr clientes))))"

text \<open>\<open>str.strip()\<close> and \<open>re.escape\<close> on ASCII text.\<close>

definition py_isspace :: "char \<Rightarrow> bool" where
  "py_isspace c = (c \<in> set [CHR 0x09, CHR 0x0A, CHR 0x0B, CHR 0x0C, CHR 0x0D,
                              CHR 0x1C, CHR 0x1D, CHR 0x1E, CHR 0x1F, CHR 0x20])"

definition py_strip :: "string \<Rightarrow> string" where
  "py_strip t = rev (dropWhile py_isspace (rev (dropWhile py_isspace t)))"

definition re_escape :: "string \<Rightarrow> string" where
  "re_escape t =
     concat (map (\<lambda>c. if c \<in> set (''()[]{}?*+-|^$.&~# '' @
                                   [CHR 0x5C, CHR 0x09, CHR 0x0A, CHR 0x0D, CHR 0x0B, CHR 0x0C])
                       then [CHR 0x5C, c] else [c]) t)"

record clientes_paginados =
  pg_clientes :: "doc list"
  pg_total :: int
  pg_pagina :: int
  pg_limite :: int
  pg_total_paginas :: int
  pg_tiene_siguiente :: bool
  pg_tiene_anterior :: bool
  pg_rango_inicio :: int
  pg_rango_fin :: int

definition cliente_to_dict_ligero :: "doc \<Rightarrow> doc" where
  "cliente_to_dict_ligero cliente =
     [''id'' \<mapsto> VStr (py_str (py_get_default cliente ''_id'' (VStr []))),
      ''cliente_id'' \<mapsto> py_get_default cliente ''cliente_id'' (VStr []),
      ''nombre'' \<mapsto> py_get_default cliente ''nombre'' (VStr []),
      ''correo'' \<mapsto> py_get_default cliente ''correo'' (VStr []),
      ''telefono'' \<mapsto> py_get_default cliente ''telefono'' (VStr []),
      ''sede_id'' \<mapsto> py_get cliente ''sede_id'',
      ''franquicia_id'' \<mapsto> py_get cliente ''franquicia_id'',
      ''fecha_registro'' \<mapsto> py_get cliente ''fecha_registro'']"

definition projection :: "doc \<Rightarrow> doc" where
  "projection d = d |` set [''_id'', ''cliente_id'', ''nombre'', ''correo'', ''telefono'',
                            ''sede_id'', ''franquicia_id'', ''fecha_registro'']"

text \<open>
  \<open>listar_todos\<close>. \<open>sort_nombre\<close> is the store's ascending sort on \<open>nombre\<close>;
  \<open>estimated_document_count\<close> is taken as the number of documents of the collection.
  The conditions of the search hold \<open>regex_inicio\<close> and, for a text longer than two
  characters, \<open>regex_contiene\<close>; a pattern that the store rejects makes the count raise.
\<close>

definition filtro_escapado_de :: "string option \<Rightarrow> string" where
  "filtro_escapado_de filtro =
     (case filtro of
        None \<Rightarrow> []
      | Some f \<Rightarrow> if f = [] then [] else re_escape (py_strip f))"

definition filtro_condiciones_todos ::
    "(string \<Rightarrow> (string \<Rightarrow> bool) option) \<Rightarrow> string \<Rightarrow> query list option" where
  "filtro_condiciones_todos regex_i filtro_escapado =
     (case regex_i (''^'' @ filtro_escapado) of
        None \<Rightarrow> None
      | Some regex_inicio \<Rightarrow>
        if length filtro_escapado \<le> 2
        then Some [QFld ''nombre'' (CRegex regex_inicio),
                   QFld ''cliente_id'' (CRegex regex_inicio),
                   QFld ''telefono'' (CRegex regex_inicio)]
        else (case regex_i filtro_escapado of
                None \<Rightarrow> None
              | Some regex_contiene \<Rightarrow>
                Some [QFld ''nombre'' (CRegex regex_inicio),
                      QFld ''cliente_id'' (CRegex regex_inicio),
                      QFld ''telefono'' (CRegex regex_inicio),
                      QFld ''nombre'' (CRegex regex_contiene),
                      QFld ''correo'' (CRegex regex_contiene)]))"

definition listar_todos ::
    "(string \<Rightarrow> (string \<Rightarrow> bool) option) \<Rightarrow> (doc list \<Rightarrow> doc list) \<Rightarrow> string option \<Rightarrow> int \<Rightarrow> int \<Rightarrow>
     doc \<Rightarrow> db \<Rightarrow> http_error + clientes_paginados" where
  "listar_todos regex_i sort_nombre filtro limite pagina current_user s =
     (if limite < 1 \<or> 100 < limite \<or> pagina < 1 then Inl (HTTPException 422 Unprocessable_Entity)
      else
        (let rol = py_get current_user ''rol'';
             sede_id = py_get current_user ''sede_id''
         in
         if rol \<notin> set [VStr ''super_admin'', VStr ''admin_sede'', VStr ''estilista'']
         then Inl (HTTPException 403 No_tienes_permisos_para_ver_clientes)
         else if rol \<in> set [VStr ''admin_sede'', VStr ''estilista''] \<and> \<not> truthy sede_id
         then Inl (HTTPException 400 Tu_usuario_no_tiene_sede_asignada)
         else
           (let query0 =
                  (if rol \<in> set [VStr ''admin_sede'', VStr ''estilista''] then
                     (let franquicia_id =
                            (case find_one (QFld ''sede_id'' (CEq sede_id)) (collection_locales s) of
                               None \<Rightarrow> VNull
                             | Some sede_info \<Rightarrow> py_get sede_info ''franquicia_id'')
                      in if truthy franquicia_id
                         then QFld ''franquicia_id'' (CEq franquicia_id)
                         else QFld ''sede_id'' (CEq sede_id))
                   else QEmpty);
                filtro_escapado = filtro_escapado_de filtro;
                query =
                  (if filtro_escapado = [] then Some query0
                   else case filtro_condiciones_todos regex_i filtro_escapado of
                     None \<Rightarrow> None
                   | Some condiciones \<Rightarrow>
                     Some (if is_empty_query query0 then QOr condiciones
                           else QAnd [query0, QOr condiciones]))
            in case query of
                 None \<Rightarrow> Inl (HTTPException 500 Error_al_obtener_clientes)
               | Some q \<Rightarrow>
                 (let total_clientes =
                        (if (filtro = None \<or> filtro = Some []) \<and> is_empty_query q
                            \<and> rol = VStr ''super_admin''
                         then int (length (collection_clients s))
                         else int (length (find_many q (collection_clients s))));
                      skip = (pagina - 1) * limite;
                      total_paginas =
                        (if total_clientes > 0 then (total_clientes + limite - 1) div limite else 1)
                  in if pagina > total_paginas \<and> total_paginas > 0
                     then Inl (HTTPException 404 (Pagina_no_existe pagina total_paginas))
                     else
                       (let clientes = map projection
                              (take (nat limite) (drop (nat skip)
                                 (sort_nombre (find_many q (collection_clients s)))))
                        in Inr \<lparr>pg_clientes = map cliente_to_dict_ligero clientes,
                                pg_total = total_clientes,
                                pg_pagina = pagina,
                                pg_limite = limite,
                                pg_total_paginas = total_paginas,
                                pg_tiene_siguiente = (pagina < total_paginas),
                                pg_tiene_anterior = (pagina > 1),
                                pg_rango_inicio = (if clientes \<noteq> [] then skip + 1 else 0),
                                pg_rango_fin = skip + int (length clientes)\<rparr>)))))"

section \<open>Sales dashboard (\<open>analytics/sales_dashboard.py\<close>)\<close>

subsection \<open>Dates\<close>

text \<open>
  A naive \<open>datetime\<close> is the number of microseconds since the midnight that opens the
  proleptic Gregorian day of ordinal 0, so that the date part is \<open>t div day_us\<close>, the
  ordinal of Python's \<open>date.toordinal\<close> (day 1 is 0001-01-01). The calendar functions
  follow the standard library's \<open>_ymd2ord\<close> and \<open>_ord2ymd\<close>.
\<close>

type_synonym datetime = int

definition day_us :: int where
  "day_us = 86400000000"

definition timedelta_days :: "int \<Rightarrow> int" where
  "timedelta_days n = n * day_us"

text \<open>\<open>(a - b).days\<close>: the floor of the difference in days.\<close>

definition delta_days :: "datetime \<Rightarrow> datetime \<Rightarrow> int" where
  "delta_days a b = (a - b) div day_us"

text \<open>\<open>replace(hour=0, minute=0, second=0, microsecond=0)\<close> and
  \<open>replace(hour=23, minute=59, second=59, microsecond=999999)\<close>.\<close>

definition start_of_day :: "datetime \<Rightarrow> datetime" where
  "start_of_day t = (t div day_us) * day_us"

definition end_of_day :: "datetime \<Rightarrow> datetime" where
  "end_of_day t = (t div day_us) * day_us + (day_us - 1)"

definition is_leap :: "int \<Rightarrow> bool" where
  "is_leap y = (y mod 4 = 0 \<and> (y mod 100 \<noteq> 0 \<or> y mod 400 = 0))"

definition days_before_year :: "int \<Rightarrow> int" where
  "days_before_year year = (let y = year - 1 in y * 365 + y div 4 - y div 100 + y div 400)"

definition DAYS_IN_MONTH :: "int list" where
  "DAYS_IN_MONTH = [-1, 31, 28, 31, 30, 31, 30, 31, 31, 30, 31, 30, 31]"

definition DAYS_BEFORE_MONTH :: "int list" where
  "DAYS_BEFORE_MONTH = [-1, 0, 31, 59, 90, 120, 151, 181, 212, 243, 273, 304, 334]"

definition days_in_month :: "int \<Rightarrow> int \<Rightarrow> int" where
  "days_in_month year month =
     (if month = 2 \<and> is_leap year then 29 else DAYS_IN_MONTH ! nat month)"

definition days_before_month :: "int \<Rightarrow> int \<Rightarrow> int" where
  "days_before_month year month =
     DAYS_BEFORE_MONTH ! nat month + (if month > 2 \<and> is_leap year then 1 else 0)"

definition ymd2ord :: "int \<Rightarrow> int \<Rightarrow> int \<Rightarrow> int" where
  "ymd2ord year month day = days_before_year year + days_before_month year month + day"

definition ord2ymd :: "int \<Rightarrow> int \<times> int \<times> int" where
  "ord2ymd ordinal =
     (let n0 = ordinal - 1;
          n400 = n0 div 146097; r400 = n0 mod 146097;
          n100 = r400 div 36524; r100 = r400 mod 36524;
          n4 = r100 div 1461; r4 = r100 mod 1461;
          n1 = r4 div 365; n = r4 mod 365;
          year = n400 * 400 + 1 + n100 * 100 + n4 * 4 + n1
      in if n1 = 4 \<or> n100 = 4 then (year - 1, 12, 31)
         else
           (let leapyear = (n1 = 3 \<and> (n4 \<noteq> 24 \<or> n100 = 3));
                month = (n + 50) div 32;
                preceding = DAYS_BEFORE_MONTH ! nat month + (if month > 2 \<and> leapyear then 1 else 0)
            in if preceding > n
               then (let month' = month - 1;
                         preceding' = preceding - (DAYS_IN_MONTH ! nat month'
                                        + (if month' = 2 \<and> leapyear then 1 else 0))
                     in (year, month', n - preceding' + 1))
               else (year, month, n - preceding + 1)))"

text \<open>\<open>replace(day=1)\<close> on a midnight.\<close>

definition first_of_month :: "datetime \<Rightarrow> datetime" where
  "first_of_month t = (case ord2ymd (t div day_us) of (y, m, d) \<Rightarrow> t - timedelta_days (d - 1))"

text \<open>
  \<open>datetime.strptime(text, "%d-%m-%Y")\<close> on ASCII text. The day is two digits from 01
  to 31, one digit from 1 to 9, or a space and such a digit; the month is two digits
  from 01 to 12 or one digit; the year is four digits. A text of another shape "does not
  match format"; text after the year and a date that does not exist (year 0, 31-02) are
  the library's other \<open>ValueError\<close>s.
\<close>

datatype strptime_error = Does_not_match_format | Unconverted_data_remains | Out_of_range

definition digit_val :: "char \<Rightarrow> int option" where
  "digit_val c = map_of (zip ''0123456789'' [0, 1, 2, 3, 4, 5, 6, 7, 8, 9]) c"

fun number_val :: "string \<Rightarrow> int option" where
  "number_val [] = None"
| "number_val cs = (case those (map digit_val cs) of
                      None \<Rightarrow> None
                    | Some ds \<Rightarrow> Some (foldl (\<lambda>a d. 10 * a + d) 0 ds))"

definition parse_day :: "string \<Rightarrow> int option" where
  "parse_day t =
     (case t of
        [a, b] \<Rightarrow>
          (if a = CHR '' '' then (case digit_val b of Some v \<Rightarrow> if 1 \<le> v then Some v else None | None \<Rightarrow> None)
           else case number_val [a, b] of Some v \<Rightarrow> if 1 \<le> v \<and> v \<le> 31 then Some v else None | None \<Rightarrow> None)
      | [a] \<Rightarrow> (case digit_val a of Some v \<Rightarrow> if 1 \<le> v then Some v else None | None \<Rightarrow> None)
      | _ \<Rightarrow> None)"

definition parse_month :: "string \<Rightarrow> int option" where
  "parse_month t =
     (case t of
        [a, b] \<Rightarrow> (case number_val [a, b] of Some v \<Rightarrow> if 1 \<le> v \<and> v \<le> 12 then Some v else None | None \<Rightarrow> None)
      | [a] \<Rightarrow> (case digit_val a of Some v \<Rightarrow> if 1 \<le> v then Some v else None | None \<Rightarrow> None)
      | _ \<Rightarrow> None)"

definition strptime_dmy :: "string \<Rightarrow> strptime_error + datetime" where
  "strptime_dmy t =
     (let d_txt = takeWhile (\<lambda>c. c \<noteq> CHR ''-'') t;
          rest1 = drop (Suc (length d_txt)) t;
          m_txt = takeWhile (\<lambda>c. c \<noteq> CHR ''-'') rest1;
          rest2 = drop (Suc (length m_txt)) rest1
      in if length t \<le> length d_txt \<or> length rest1 \<le> length m_txt then Inl Does_not_match_format
         else case (parse_day d_txt, parse_month m_txt, number_val (take 4 rest2)) of
           (Some d, Some m, Some y) \<Rightarrow>
             if length rest2 < 4 then Inl Does_not_match_format
             else if 4 < length rest2 then Inl Unconverted_data_remains
             else if y < 1 \<or> days_in_month y m < d then Inl Out_of_range
             else Inr (ymd2ord y m d * day_us)
         | _ \<Rightarrow> Inl Does_not_match_format)"

subsection \<open>\<open>get_date_range\<close>\<close>

datatype value_error =
    Debe_proporcionar_start_date_y_end_date
  | La_fecha_de_inicio_no_puede_ser_posterior
  | El_rango_no_puede_superar_365_dias
  | Formato_de_fecha_invalido
  | Strptime strptime_error
  | Periodo_no_soportado string

text \<open>
  The two readings of the clock (\<open>today\<close>, \<open>today_start\<close>) are parameters. Inside the
  \<open>try\<close>, a \<open>ValueError\<close> whose text holds "does not match format" is replaced, any
  other is raised again.
\<close>

definition get_date_range ::
    "datetime \<Rightarrow> datetime \<Rightarrow> string \<Rightarrow> string option \<Rightarrow> string option \<Rightarrow>
     value_error + (datetime \<times> datetime)" where
  "get_date_range now1 now2 period start_date_custom end_date_custom =
     (let today = end_of_day now1;
          today_start = start_of_day now2
      in
      if period = ''custom'' then
        (case (start_date_custom, end_date_custom) of
           (Some start_txt, Some end_txt) \<Rightarrow>
             if start_txt = [] \<or> end_txt = [] then Inl Debe_proporcionar_start_date_y_end_date
             else
               (case strptime_dmy start_txt of
                  Inl Does_not_match_format \<Rightarrow> Inl Formato_de_fecha_invalido
                | Inl e \<Rightarrow> Inl (Strptime e)
                | Inr start0 \<Rightarrow>
                  (case strptime_dmy end_txt of
                     Inl Does_not_match_format \<Rightarrow> Inl Formato_de_fecha_invalido
                   | Inl e \<Rightarrow> Inl (Strptime e)
                   | Inr end0 \<Rightarrow>
                     (let start = start_of_day start0;
                          end = end_of_day end0
                      in if start > end then Inl La_fecha_de_inicio_no_puede_ser_posterior
                         else
                           (let dias = delta_days end start + 1
                            in if dias > 365 then Inl El_rango_no_puede_superar_365_dias
                               else Inr (start, end)))))
         | _ \<Rightarrow> Inl Debe_proporcionar_start_date_y_end_date)
      else if period = ''today'' then Inr (today_start, today)
      else if period = ''last_7_days'' then Inr (today_start - timedelta_days 6, today)
      else if period = ''last_30_days'' then Inr (today_start - timedelta_days 29, today)
      else if period = ''month'' then Inr (first_of_month today_start, today)
      else Inl (Periodo_no_soportado period))"

subsection \<open>Sales and their metrics\<close>

text \<open>
  A sale and its line items, with the fields the dashboard reads. \<open>None\<close> is an absent
  field; a present field holds a value of its kind. Amounts are Python integers.
\<close>

record item =
  i_tipo :: "string option"
  i_subtotal :: "int option"

record venta =
  v_moneda :: "string option"
  v_fecha_pago :: "datetime option"
  v_sede_id :: "val option"
  v_desglose_pagos :: "(string \<rightharpoonup> int) option"
  v_items :: "item list"

text \<open>\<open>get_ventas_periodo\<close>: the filter on \<open>fecha_pago\<close> and, for a truthy
  \<open>sede_id\<close>, on the site.\<close>

definition get_ventas_periodo :: "datetime \<Rightarrow> datetime \<Rightarrow> val \<Rightarrow> venta list \<Rightarrow> venta list" where
  "get_ventas_periodo start_date end_date sede_id sales =
     filter (\<lambda>v. (case v_fecha_pago v of
                     None \<Rightarrow> False
                   | Some t \<Rightarrow> start_date \<le> t \<and> t \<le> end_date)
                \<and> (if truthy sede_id then eq_match (v_sede_id v) sede_id else True)) sales"

record metricas =
  ventas_totales :: int
  cantidad_ventas :: int
  ventas_servicios :: int
  ventas_productos :: int
  metodos_pago :: "string \<rightharpoonup> int"
  ticket_promedio :: "rat option"

definition metricas_iniciales :: metricas where
  "metricas_iniciales =
     \<lparr>ventas_totales = 0, cantidad_ventas = 0, ventas_servicios = 0, ventas_productos = 0,
      metodos_pago = [''efectivo'' \<mapsto> 0, ''transferencia'' \<mapsto> 0, ''tarjeta'' \<mapsto> 0,
                      ''sin_pago'' \<mapsto> 0, ''otros'' \<mapsto> 0, ''addi'' \<mapsto> 0, ''giftcard'' \<mapsto> 0,
                      ''link_de_pago'' \<mapsto> 0, ''tarjeta_credito'' \<mapsto> 0, ''tarjeta_debito'' \<mapsto> 0,
                      ''abonos'' \<mapsto> 0],
      ticket_promedio = None\<rparr>"

definition metodos_leidos :: "string list" where
  "metodos_leidos = [''efectivo'', ''transferencia'', ''tarjeta'', ''tarjeta_credito'',
                     ''tarjeta_debito'', ''link_de_pago'', ''giftcard'', ''addi'', ''abonos'', ''otros'']"

text \<open>The loop over the items of a sale.\<close>

fun sumar_items :: "metricas \<Rightarrow> item list \<Rightarrow> metricas" where
  "sumar_items m [] = m"
| "sumar_items m (it # its) =
     (let tipo = (case i_tipo it of None \<Rightarrow> ''servicio'' | Some t \<Rightarrow> t);
          subtotal = (case i_subtotal it of None \<Rightarrow> 0 | Some x \<Rightarrow> x)
      in sumar_items
           (if tipo = ''servicio'' then m\<lparr>ventas_servicios := ventas_servicios m + subtotal\<rparr>
            else if tipo = ''producto'' then m\<lparr>ventas_productos := ventas_productos m + subtotal\<rparr>
            else m) its)"

text \<open>The loop over the payment methods: a method is added only when positive. Its
  key is present in the running dictionary, which starts with all of them.\<close>

fun sumar_metodos :: "(string \<rightharpoonup> int) \<Rightarrow> (string \<rightharpoonup> int) \<Rightarrow> string list \<Rightarrow> (string \<rightharpoonup> int)" where
  "sumar_metodos desglose mp [] = mp"
| "sumar_metodos desglose mp (metodo # ms) =
     (let valor = (case desglose metodo of None \<Rightarrow> 0 | Some x \<Rightarrow> x)
      in sumar_metodos desglose
           (if valor > 0
            then (case mp metodo of None \<Rightarrow> mp | Some acc \<Rightarrow> mp(metodo \<mapsto> acc + valor))
            else mp) ms)"

definition moneda_de :: "venta \<Rightarrow> string" where
  "moneda_de v = (case v_moneda v of None \<Rightarrow> ''COP'' | Some c \<Rightarrow> c)"

definition total_venta :: "venta \<Rightarrow> int" where
  "total_venta v =
     (case v_desglose_pagos v of
        None \<Rightarrow> 0
      | Some desglose \<Rightarrow> (case desglose ''total'' of None \<Rightarrow> 0 | Some x \<Rightarrow> x))"

text \<open>The body of the first loop, for one sale.\<close>

definition procesar_venta :: "(string \<rightharpoonup> metricas) \<Rightarrow> venta \<Rightarrow> (string \<rightharpoonup> metricas)" where
  "procesar_venta metricas_por_moneda v =
     (let moneda = moneda_de v;
          m0 = (case metricas_por_moneda moneda of None \<Rightarrow> metricas_iniciales | Some m \<Rightarrow> m);
          desglose_pagos = (case v_desglose_pagos v of None \<Rightarrow> Map.empty | Some d \<Rightarrow> d);
          m1 = m0\<lparr>ventas_totales := ventas_totales m0 + total_venta v,
                   cantidad_ventas := cantidad_ventas m0 + 1\<rparr>;
          m2 = sumar_items m1 (v_items v);
          m3 = m2\<lparr>metodos_pago := sumar_metodos desglose_pagos (metodos_pago m2) metodos_leidos\<rparr>
      in metricas_por_moneda(moneda \<mapsto> m3))"

text \<open>
  The body of the second loop. \<open>round(x, 2)\<close> leaves an integer as it is; the quotient
  \<open>ventas_totales / cantidad\<close> is a float, and \<open>round_div a b\<close> stands for
  \<open>round(a / b, 2)\<close>.
\<close>

definition finalizar :: "(int \<Rightarrow> int \<Rightarrow> rat) \<Rightarrow> metricas \<Rightarrow> metricas" where
  "finalizar round_div datos =
     (let cantidad = cantidad_ventas datos;
          d1 = datos\<lparr>ticket_promedio :=
                  Some (if cantidad > 0 then round_div (ventas_totales datos) cantidad else 0)\<rparr>
      in if metodos_pago d1 ''sin_pago'' = Some 0
         then d1\<lparr>metodos_pago := (metodos_pago d1)(''sin_pago'' := None)\<rparr>
         else d1)"

definition calcular_metricas_financieras ::
    "(int \<Rightarrow> int \<Rightarrow> rat) \<Rightarrow> venta list \<Rightarrow> (string \<rightharpoonup> metricas)" where
  "calcular_metricas_financieras round_div ventas =
     (\<lambda>moneda. map_option (finalizar round_div) (foldl procesar_venta Map.empty ventas moneda))"

subsection \<open>The windows of \<open>ventas_dashboard\<close>\<close>

record ventanas =
  w_start :: datetime
  w_end :: datetime
  w_dias_periodo :: int
  w_start_anterior :: datetime
  w_end_anterior :: datetime
  w_ventas_actuales :: "venta list"
  w_ventas_anteriores :: "venta list"

datatype dashboard_detail =
    No_autorizado_se_requiere_administrador
  | Usuario_admin_sede_sin_sede_asignada
  | No_puede_ver_ventas_de_otra_sede val
  | Rango_invalido value_error
  | Parametro_invalido
  | Error_al_generar_dashboard

datatype dashboard_error = DashboardException nat dashboard_detail

text \<open>The pattern \<open>^\d{2}-\d{2}-\d{4}$\<close> of the two date parameters, on ASCII text;
  \<open>$\<close> also matches before a final newline.\<close>

definition fecha_regex :: "string \<Rightarrow> bool" where
  "fecha_regex t =
     (let body = (if length t = 11 \<and> last t = CHR 0x0A then butlast t else t)
      in case body of
           [d1, d2, s1, m1, m2, s2, y1, y2, y3, y4] \<Rightarrow>
             s1 = CHR ''-'' \<and> s2 = CHR ''-'' \<and>
             list_all (\<lambda>c. digit_val c \<noteq> None) [d1, d2, m1, m2, y1, y2, y3, y4]
         | _ \<Rightarrow> False)"

text \<open>
  \<open>ventas_dashboard\<close> from its checks to the two reads of the sales: the declared
  pattern of the date parameters (422; the \<open>enum\<close> of \<open>period\<close> is documentation
  only), the role and site checks, the current window from
  \<open>get_date_range\<close>, the comparison window, and the sales of each. A \<open>datetime\<close>
  before year 1 is an \<open>OverflowError\<close>, which the handler answers with 500.
\<close>

definition ventas_dashboard_ventanas ::
    "datetime \<Rightarrow> datetime \<Rightarrow> string \<Rightarrow> string option \<Rightarrow> string option \<Rightarrow> val \<Rightarrow> doc \<Rightarrow>
     venta list \<Rightarrow> dashboard_error + ventanas" where
  "ventas_dashboard_ventanas now1 now2 period start_date end_date sede_id0 current_user sales =
     (if (case start_date of None \<Rightarrow> False | Some t \<Rightarrow> \<not> fecha_regex t)
         \<or> (case end_date of None \<Rightarrow> False | Some t \<Rightarrow> \<not> fecha_regex t)
      then Inl (DashboardException 422 Parametro_invalido)
      else if py_get current_user ''rol'' \<notin> set [VStr ''admin_sede'', VStr ''admin_franquicia'', VStr ''super_admin'']
      then Inl (DashboardException 403 No_autorizado_se_requiere_administrador)
      else
        (let user_sede_id = py_get current_user ''sede_id'';
             es_admin_sede = (py_get current_user ''rol'' = VStr ''admin_sede'')
         in if es_admin_sede \<and> \<not> truthy user_sede_id
            then Inl (DashboardException 403 Usuario_admin_sede_sin_sede_asignada)
            else if es_admin_sede \<and> truthy sede_id0 \<and> sede_id0 \<noteq> user_sede_id
            then Inl (DashboardException 403 (No_puede_ver_ventas_de_otra_sede user_sede_id))
            else
              (let sede_id = (if es_admin_sede then user_sede_id else sede_id0)
               in case get_date_range now1 now2 period start_date end_date of
                    Inl e \<Rightarrow> Inl (DashboardException 400 (Rango_invalido e))
                  | Inr (start_date_dt, end_date_dt) \<Rightarrow>
                    (let dias_periodo = delta_days end_date_dt start_date_dt + 1;
                         start_anterior = start_date_dt - timedelta_days dias_periodo;
                         end_anterior = start_date_dt - timedelta_days 1
                     in if start_anterior < day_us \<or> end_anterior < day_us
                        then Inl (DashboardException 500 Error_al_generar_dashboard)
                        else Inr \<lparr>w_start = start_date_dt, w_end = end_date_dt,
                                  w_dias_periodo = dias_periodo,
                                  w_start_anterior = start_anterior,
                                  w_end_anterior = end_anterior,
                                  w_ventas_actuales =
                                    get_ventas_periodo start_date_dt end_date_dt sede_id sales,
                                  w_ventas_anteriores =
                                    get_ventas_periodo start_anterior end_anterior sede_id sales\<rparr>))))"

subsection \<open>Notions used in the proofs about the metrics\<close>

text \<open>
  The state of a bucket between the two loops: \<open>sin_pago\<close> is still zero and the keys
  are the initial ones. The count and the total of a currency, zero when it has no bucket.
\<close>

definition bucket_ok :: "metricas \<Rightarrow> bool" where
  "bucket_ok m \<longleftrightarrow> metodos_pago m ''sin_pago'' = Some 0 \<and>
     dom (metodos_pago m) = insert ''sin_pago'' (set metodos_leidos)"



text \<open>
  The text condition of a listing as a predicate on a client: every client when there is
  no search text, \<open>None\<close> when the store rejects a pattern.
\<close>

definition texto_clientes ::
    "(string \<Rightarrow> (string \<Rightarrow> bool) option) \<Rightarrow> string option \<Rightarrow> (doc \<Rightarrow> bool) option" where
  "texto_clientes regex_i filtro =
     (case filtro of
        None \<Rightarrow> Some (\<lambda>c. True)
      | Some f \<Rightarrow>
        if f = [] then Some (\<lambda>c. True)
        else map_option (\<lambda>p c. list_ex (matches c) (filtro_condiciones p)) (regex_i f))"

definition texto_todos ::
    "(string \<Rightarrow> (string \<Rightarrow> bool) option) \<Rightarrow> string option \<Rightarrow> (doc \<Rightarrow> bool) option" where
  "texto_todos regex_i filtro =
     (if filtro_escapado_de filtro = [] then Some (\<lambda>c. True)
      else map_option (\<lambda>conds c. list_ex (matches c) conds)
             (filtro_condiciones_todos regex_i (filtro_escapado_de filtro)))"

section \<open>Example data\<close>

text \<open>Concrete documents and stores on which the theorems below are instantiated.\<close>

definition ej_super_admin :: doc where
  "ej_super_admin = [''rol'' \<mapsto> VStr ''super_admin'', ''email'' \<mapsto> VStr ''root@example.com'']"

definition ej_franquicia :: doc where
  "ej_franquicia = [''franquicia_id'' \<mapsto> VStr ''FQ-1'', ''sedes'' \<mapsto> VArr []]"

definition ej_sede :: doc where
  "ej_sede = [''sede_id'' \<mapsto> VStr ''SD-1'', ''pais'' \<mapsto> VStr ''CO'']"

definition ej_sede_ajena :: doc where
  "ej_sede_ajena = [''sede_id'' \<mapsto> VStr ''SD-1'', ''franquicia_id'' \<mapsto> VStr ''FQ-2'']"

definition ej_usuario :: doc where
  "ej_usuario = [''sede_id'' \<mapsto> VStr ''SD-1'', ''rol'' \<mapsto> VStr ''estilista'']"

definition ej_db :: db where
  "ej_db = \<lparr>collection_franquicia = [ej_franquicia], collection_locales = [ej_sede],
            collection_auth = [ej_usuario], collection_clients = [], collection_servicios = []\<rparr>"

text \<open>The store after \<open>SD-1\<close> has been assigned to \<open>FQ-1\<close>.\<close>

definition ej_db_asignada :: db where
  "ej_db_asignada =
     \<lparr>collection_franquicia = [ej_franquicia(''sedes'' \<mapsto> VArr [''SD-1''])],
      collection_locales = [ej_sede(''franquicia_id'' \<mapsto> VStr ''FQ-1'')],
      collection_auth = [ej_usuario(''franquicia_id'' \<mapsto> VStr ''FQ-1'')],
      collection_clients = [], collection_servicios = []\<rparr>"

definition ej_resp_asignada :: sede_resp where
  "ej_resp_asignada = \<lparr>success = True, msg_sede = ''SD-1'', msg_franquicia = ''FQ-1'',
                        usuarios_actualizados = 1\<rparr>"

text \<open>Callers, clients and services for the listing and write routes. \<open>ej_regex\<close>
  stands for the store's pattern search: it accepts every pattern and looks for it as
  plain text, at the start of the field after a leading \<open>^\<close>.\<close>

definition ej_regex :: "string \<Rightarrow> (string \<Rightarrow> bool) option" where
  "ej_regex p = Some (if p \<noteq> [] \<and> hd p = CHR ''^'' then prefix (tl p) else sublist p)"

definition ej_admin_sede :: doc where
  "ej_admin_sede = [''rol'' \<mapsto> VStr ''admin_sede'', ''sede_id'' \<mapsto> VStr ''SD-1'',
                    ''email'' \<mapsto> VStr ''admin@example.com'']"

definition ej_admin_franquicia :: doc where
  "ej_admin_franquicia = [''rol'' \<mapsto> VStr ''admin_franquicia'', ''franquicia_id'' \<mapsto> VStr ''FQ-1'']"

definition ej_cliente_global :: doc where
  "ej_cliente_global = [''_id'' \<mapsto> VOid ''00000000000000000000000a'', ''cliente_id'' \<mapsto> VStr ''CL-1'',
                        ''correo'' \<mapsto> VStr ''ana@example.com'']"

definition ej_cliente_sede :: doc where
  "ej_cliente_sede = [''_id'' \<mapsto> VOid ''00000000000000000000000b'', ''cliente_id'' \<mapsto> VStr ''CL-2'',
                      ''sede_id'' \<mapsto> VStr ''SD-1'', ''franquicia_id'' \<mapsto> VNull]"

definition ej_cliente_franquicia :: doc where
  "ej_cliente_franquicia = [''_id'' \<mapsto> VOid ''00000000000000000000000c'', ''cliente_id'' \<mapsto> VStr ''CL-3'',
                            ''sede_id'' \<mapsto> VStr ''SD-2'', ''franquicia_id'' \<mapsto> VStr ''FQ-1'']"

definition ej_cliente_ajeno :: doc where
  "ej_cliente_ajeno = [''_id'' \<mapsto> VOid ''00000000000000000000000d'', ''cliente_id'' \<mapsto> VStr ''CL-4'',
                       ''telefono'' \<mapsto> VStr ''3001112233'',
                       ''sede_id'' \<mapsto> VStr ''SD-9'', ''franquicia_id'' \<mapsto> VStr ''FQ-2'']"

definition ej_db_clientes :: db where
  "ej_db_clientes = ej_db_asignada\<lparr>collection_clients :=
      [ej_cliente_global, ej_cliente_sede, ej_cliente_franquicia, ej_cliente_ajeno]\<rparr>"

definition ej_payload_duplicado :: doc where
  "ej_payload_duplicado = [''nombre'' \<mapsto> VStr ''Eva'', ''correo'' \<mapsto> VStr ''ana@example.com'']"

definition ej_cliente_nuevo :: doc where
  "ej_cliente_nuevo =
     [''nombre'' \<mapsto> VStr ''Eva'', ''correo'' \<mapsto> VStr ''ana@example.com'',
      ''cliente_id'' \<mapsto> VStr ''CL-9'', ''fecha_creacion'' \<mapsto> VInt 0,
      ''creado_por'' \<mapsto> VStr ''admin@example.com'', ''sede_id'' \<mapsto> VStr ''SD-1'',
      ''franquicia_id'' \<mapsto> VStr ''FQ-1'', ''pais'' \<mapsto> VStr ''CO'',
      ''notas_historial'' \<mapsto> VArr []]"

definition ej_servicio_global :: doc where
  "ej_servicio_global = [''_id'' \<mapsto> VOid ''0000000000000000000000a1'', ''servicio_id'' \<mapsto> VStr ''SV-1'']"

definition ej_servicio_franquicia :: doc where
  "ej_servicio_franquicia = [''_id'' \<mapsto> VOid ''0000000000000000000000a2'', ''servicio_id'' \<mapsto> VStr ''SV-2'',
                             ''franquicia_id'' \<mapsto> VStr ''FQ-1'']"

definition ej_servicio_otra_franquicia :: doc where
  "ej_servicio_otra_franquicia = [''_id'' \<mapsto> VOid ''0000000000000000000000a3'', ''servicio_id'' \<mapsto> VStr ''SV-3'',
                                  ''franquicia_id'' \<mapsto> VStr ''FQ-2'']"

definition ej_servicio_sede_ajena :: doc where
  "ej_servicio_sede_ajena = [''_id'' \<mapsto> VOid ''0000000000000000000000a4'', ''servicio_id'' \<mapsto> VStr ''SV-4'',
                             ''sede_id'' \<mapsto> VStr ''SD-9'', ''franquicia_id'' \<mapsto> VStr ''FQ-2'']"

definition ej_db_servicios :: db where
  "ej_db_servicios = ej_db_asignada\<lparr>collection_servicios :=
      [ej_servicio_global, ej_servicio_franquicia, ej_servicio_otra_franquicia, ej_servicio_sede_ajena]\<rparr>"

text \<open>
  Sales for the dashboard: one of 2024-01-02 10:00 paid in cash, one of 2024-01-01 12:00
  without currency. \<open>ej_round\<close> stands for the rounded quotient of the average ticket.
\<close>

definition ej_round :: "int \<Rightarrow> int \<Rightarrow> rat" where
  "ej_round a b = of_int a / of_int b"

definition ej_venta_efectivo :: venta where
  "ej_venta_efectivo =
     \<lparr>v_moneda = Some ''COP'', v_fecha_pago = Some (738887 * day_us + 36000000000),
      v_sede_id = Some (VStr ''SD-1''),
      v_desglose_pagos = Some [''total'' \<mapsto> 100, ''efectivo'' \<mapsto> 100],
      v_items = [\<lparr>i_tipo = Some ''servicio'', i_subtotal = Some 100\<rparr>]\<rparr>"

definition ej_venta_sin_moneda :: venta where
  "ej_venta_sin_moneda =
     \<lparr>v_moneda = None, v_fecha_pago = Some (738886 * day_us + 43200000000),
      v_sede_id = Some (VStr ''SD-1''),
      v_desglose_pagos = Some [''total'' \<mapsto> 50, ''transferencia'' \<mapsto> 50],
      v_items = []\<rparr>"

section \<open>Properties of the store operations\<close>

lemmas ej_defs = ej_super_admin_def ej_franquicia_def ej_sede_def ej_sede_ajena_def ej_usuario_def
  ej_db_def ej_db_asignada_def ej_resp_asignada_def

lemmas ej2 = ej_regex_def ej_admin_sede_def ej_admin_franquicia_def ej_cliente_global_def ej_cliente_sede_def
  ej_cliente_franquicia_def ej_cliente_ajeno_def ej_db_clientes_def

lemmas ej3 = ej_payload_duplicado_def ej_cliente_nuevo_def ej_servicio_global_def ej_servicio_franquicia_def
  ej_servicio_otra_franquicia_def ej_servicio_sede_ajena_def ej_db_servicios_def

lemma find_one_None_iff: "find_one q c = None \<longleftrightarrow> (\<forall>d\<in>set c. \<not> matches d q)"
  by (auto simp: find_one_def find_None_iff)

lemma find_one_Some_matches: "find_one q c = Some d \<Longrightarrow> matches d q \<and> d \<in> set c"
  by (auto simp: find_one_def find_Some_iff)

lemma update_one_no_match: "find_one q c = None \<Longrightarrow> update_one q u c = Some c"
  by (induction c) (auto simp: find_one_def split: if_splits)

lemma update_one_found:
  "find_one q c = Some d \<Longrightarrow> u d = Some d' \<Longrightarrow>
   \<exists>pre post. c = pre @ d # post \<and> (\<forall>x\<in>set pre. \<not> matches x q) \<and>
     update_one q u c = Some (pre @ d' # post)"
proof (induction c)
  case Nil
  then show ?case by (simp add: find_one_def)
next
  case (Cons a c)
  show ?case
  proof (cases "matches a q")
    case True
    with Cons.prems have "a = d" by (simp add: find_one_def)
    with True Cons.prems show ?thesis
      by (intro exI[of _ "[]"] exI[of _ c]) simp
  next
    case False
    with Cons.prems have "find_one q c = Some d" by (simp add: find_one_def)
    from Cons.IH[OF this Cons.prems(2)] obtain pre post where
      "c = pre @ d # post" "\<forall>x\<in>set pre. \<not> matches x q" "update_one q u c = Some (pre @ d' # post)"
      by blast
    with False show ?thesis
      by (intro exI[of _ "a # pre"] exI[of _ post]) simp
  qed
qed

lemma update_one_rejected:
  "find_one q c = Some d \<Longrightarrow> u d = None \<Longrightarrow> update_one q u c = None"
  by (induction c) (auto simp: find_one_def split: if_splits)

lemma find_one_prefix:
  "(\<forall>x\<in>set pre. \<not> matches x q) \<Longrightarrow> matches d q \<Longrightarrow> find_one q (pre @ d # post) = Some d"
  by (induction pre) (auto simp: find_one_def)

lemma update_one_prefix:
  "(\<forall>x\<in>set pre. \<not> matches x q) \<Longrightarrow> matches d q \<Longrightarrow>
   update_one q u (pre @ d # post) = (case u d of None \<Rightarrow> None | Some d' \<Rightarrow> Some (pre @ d' # post))"
  by (induction pre) (auto split: option.splits)

lemma update_one_total:
  "\<exists>c'. update_one q (\<lambda>d. Some (f d)) c = Some c'"
  by (induction c) auto

lemma asignar_sede_Inr:
  assumes "asignar_sede F S u s = Inr (r1, s1)"
  obtains fr sede frs' locs' where
    "py_get u ''rol'' = VStr ''super_admin''"
    "find_one (q_franquicia F) (collection_franquicia s) = Some fr"
    "find_one (q_sede S) (collection_locales s) = Some sede"
    "\<not> truthy (py_get sede ''franquicia_id'') \<or> py_get sede ''franquicia_id'' = VStr F"
    "update_one (q_franquicia F) (op_addToSet ''sedes'' S) (collection_franquicia s) = Some frs'"
    "update_one (q_sede S) (\<lambda>d. Some (op_set ''franquicia_id'' (VStr F) d)) (collection_locales s) = Some locs'"
    "s1 = s\<lparr>collection_franquicia := frs', collection_locales := locs',
            collection_auth := update_many (q_sede S) (op_set ''franquicia_id'' (VStr F)) (collection_auth s)\<rparr>"
    "r1 = \<lparr>success = True, msg_sede = S, msg_franquicia = F,
           usuarios_actualizados = modified_count (q_sede S) (op_set ''franquicia_id'' (VStr F)) (collection_auth s)\<rparr>"
  using assms unfolding asignar_sede_def Let_def
  by (auto split: if_splits option.splits)

lemma op_addToSet_defined:
  "fr ''sedes'' = None \<or> (\<exists>xs. fr ''sedes'' = Some (VArr xs)) \<Longrightarrow> \<exists>fr'. op_addToSet ''sedes'' S fr = Some fr'"
  by (auto simp: op_addToSet_def)

lemma modified_count_op_set:
  "modified_count q (op_set k v) c =
   length (filter (\<lambda>(old, new). new k \<noteq> old k) (zip c (update_many q (op_set k v) c)))"
proof (induction c)
  case Nil
  show ?case by (simp add: modified_count_def update_many_def)
next
  case (Cons d c)
  have "op_set k v d \<noteq> d \<longleftrightarrow> op_set k v d k \<noteq> d k"
    by (auto simp: op_set_def fun_upd_idem_iff)
  with Cons show ?case
    by (auto simp: modified_count_def update_many_def)
qed

lemma matches_q_sede_op_set [simp]:
  "matches (op_set ''franquicia_id'' v d) (q_sede S) = matches d (q_sede S)"
  by (simp add: op_set_def)

lemma matches_q_sede_op_unset [simp]:
  "matches (op_unset ''franquicia_id'' d) (q_sede S) = matches d (q_sede S)"
  by (simp add: op_unset_def)

lemma matches_q_franquicia_addToSet:
  "op_addToSet ''sedes'' S d = Some d' \<Longrightarrow> matches d' (q_franquicia F) = matches d (q_franquicia F)"
  by (auto simp: op_addToSet_def split: option.splits val.splits if_splits)

lemma op_addToSet_again:
  "op_addToSet ''sedes'' S d = Some d' \<Longrightarrow> op_addToSet ''sedes'' S d' = Some d'"
  by (auto simp: op_addToSet_def split: option.splits val.splits if_splits)

lemma op_addToSet_sedes:
  "op_addToSet ''sedes'' S d = Some d' \<Longrightarrow> \<exists>xs. d' ''sedes'' = Some (VArr xs) \<and> S \<in> set xs"
  by (auto simp: op_addToSet_def split: option.splits val.splits if_splits)

lemma update_many_op_set_twice:
  "update_many (q_sede S) (op_set ''franquicia_id'' v) (update_many (q_sede S) (op_set ''franquicia_id'' v) c)
   = update_many (q_sede S) (op_set ''franquicia_id'' v) c"
  by (induction c) (auto simp: update_many_def op_set_def)

lemma modified_count_zero:
  "(\<And>d. d \<in> set c \<Longrightarrow> matches d q \<Longrightarrow> u d = d) \<Longrightarrow> modified_count q u c = 0"
  by (auto simp: modified_count_def filter_empty_conv)

lemma modified_count_op_set_twice:
  "modified_count (q_sede S) (op_set ''franquicia_id'' v) (update_many (q_sede S) (op_set ''franquicia_id'' v) c) = 0"
  by (rule modified_count_zero) (auto simp: update_many_def op_set_def)

lemma asignar_sede_state:
  assumes "asignar_sede F S current_user s = Inr (r1, s1)"
  obtains fr fr' sede pre post pre2 post2 where
    "py_get current_user ''rol'' = VStr ''super_admin''"
    "collection_franquicia s = pre @ fr # post"
    "\<forall>x\<in>set pre. \<not> matches x (q_franquicia F)"
    "matches fr (q_franquicia F)"
    "op_addToSet ''sedes'' S fr = Some fr'"
    "collection_franquicia s1 = pre @ fr' # post"
    "collection_locales s = pre2 @ sede # post2"
    "\<forall>x\<in>set pre2. \<not> matches x (q_sede S)"
    "matches sede (q_sede S)"
    "collection_locales s1 = pre2 @ op_set ''franquicia_id'' (VStr F) sede # post2"
    "collection_auth s1 = update_many (q_sede S) (op_set ''franquicia_id'' (VStr F)) (collection_auth s)"
    "collection_clients s1 = collection_clients s"
    "collection_servicios s1 = collection_servicios s"
proof -
  from assms obtain fr sede frs' locs' where
    rol: "py_get current_user ''rol'' = VStr ''super_admin''" and
    fr: "find_one (q_franquicia F) (collection_franquicia s) = Some fr" and
    sede: "find_one (q_sede S) (collection_locales s) = Some sede" and
    u1: "update_one (q_franquicia F) (op_addToSet ''sedes'' S) (collection_franquicia s) = Some frs'" and
    u2: "update_one (q_sede S) (\<lambda>d. Some (op_set ''franquicia_id'' (VStr F) d)) (collection_locales s) = Some locs'" and
    s1: "s1 = s\<lparr>collection_franquicia := frs', collection_locales := locs',
            collection_auth := update_many (q_sede S) (op_set ''franquicia_id'' (VStr F)) (collection_auth s)\<rparr>"
    by (rule asignar_sede_Inr)
  from fr u1 obtain fr' where fr': "op_addToSet ''sedes'' S fr = Some fr'"
    using update_one_rejected by (cases "op_addToSet ''sedes'' S fr") fastforce+
  from update_one_found[of "q_franquicia F" "collection_franquicia s" fr "op_addToSet ''sedes'' S" fr', OF fr fr'] u1
  obtain pre post where
    frs: "collection_franquicia s = pre @ fr # post" "\<forall>x\<in>set pre. \<not> matches x (q_franquicia F)"
      "frs' = pre @ fr' # post" by auto
  let ?sd = "op_set ''franquicia_id'' (VStr F) sede"
  from update_one_found[of "q_sede S" "collection_locales s" sede "\<lambda>d. Some (op_set ''franquicia_id'' (VStr F) d)" ?sd, OF sede] u2
  obtain pre2 post2 where
    locs: "collection_locales s = pre2 @ sede # post2" "\<forall>x\<in>set pre2. \<not> matches x (q_sede S)"
      "locs' = pre2 @ ?sd # post2" by auto
  have mfr: "matches fr (q_franquicia F)" using fr find_one_Some_matches by blast
  have msd: "matches sede (q_sede S)" using sede find_one_Some_matches by blast
  show thesis
    by (rule that[OF rol frs(1) frs(2) mfr fr' _ locs(1) locs(2) msd]) (simp_all add: s1 frs locs)
qed

lemma op_pull_after_addToSet:
  "op_addToSet ''sedes'' S fr = Some fr' \<Longrightarrow>
   \<exists>xs. op_pull ''sedes'' S fr' = Some (fr'(''sedes'' \<mapsto> VArr xs)) \<and> S \<notin> set xs \<and>
     (\<forall>xs0. fr ''sedes'' = Some (VArr xs0) \<and> S \<notin> set xs0 \<longrightarrow> fr'(''sedes'' \<mapsto> VArr xs) = fr)"
  by (auto simp: op_addToSet_def op_pull_def fun_upd_idem_iff split: option.splits val.splits if_splits)

lemma py_in_sedes_after_addToSet:
  "op_addToSet ''sedes'' S fr = Some fr' \<Longrightarrow> py_in_sedes S fr' = Some True"
  by (auto simp: op_addToSet_def py_in_sedes_def split: option.splits val.splits if_splits)

lemma unset_after_set:
  "d ''franquicia_id'' = None \<Longrightarrow> op_unset ''franquicia_id'' (op_set ''franquicia_id'' v d) = d"
  by (auto simp: op_unset_def op_set_def)

lemma update_many_unset_after_set:
  "\<forall>d\<in>set c. matches d (q_sede S) \<longrightarrow> d ''franquicia_id'' = None \<Longrightarrow>
   update_many (q_sede S) (op_unset ''franquicia_id'')
     (update_many (q_sede S) (op_set ''franquicia_id'' v) c) = c"
proof (induction c)
  case Nil
  show ?case by (simp add: update_many_def)
next
  case (Cons d c)
  then have ih: "update_many (q_sede S) (op_unset ''franquicia_id'')
     (update_many (q_sede S) (op_set ''franquicia_id'' v) c) = c" by simp
  show ?case
  proof (cases "matches d (q_sede S)")
    case True
    with Cons.prems have "d ''franquicia_id'' = None" by simp
    then have "op_unset ''franquicia_id'' (op_set ''franquicia_id'' v d) = d" by (simp add: unset_after_set)
    moreover have "matches (op_set ''franquicia_id'' v d) (q_sede S)"
      using True by (simp only: matches_q_sede_op_set)
    ultimately show ?thesis using True ih unfolding update_many_def by simp
  next
    case False
    then show ?thesis using ih unfolding update_many_def by simp
  qed
qed

section \<open>Claims on the franchise routes\<close>

text \<open>
  Claim C2. For a \<open>super_admin\<close> caller, \<open>asignar_sede\<close> answers 404 (franchise not
  found) when no franchise document has the identifier; otherwise 404 (site not found)
  when no site document has the identifier; otherwise 400, with the current owner in the
  message, when the site's franchise tag is a non-empty value different from the
  franchise; otherwise it succeeds, and \<open>usuarios_actualizados\<close> is the number of user
  documents whose franchise tag differs before and after the call. The last case is
  stated for a franchise whose \<open>sedes\<close> field is absent or an array, as
  \<open>crear_franquicia\<close> writes it.
\<close>

theorem asignar_sede_outcomes:
  assumes rol: "py_get current_user ''rol'' = VStr ''super_admin''"
  shows
  "((\<forall>d\<in>set (collection_franquicia s). \<not> matches d (q_franquicia F)) \<longrightarrow>
      asignar_sede F S current_user s = Inl (HTTPException 404 Franquicia_no_encontrada)) \<and>
   ((\<exists>d\<in>set (collection_franquicia s). matches d (q_franquicia F)) \<and>
    (\<forall>d\<in>set (collection_locales s). \<not> matches d (q_sede S)) \<longrightarrow>
      asignar_sede F S current_user s = Inl (HTTPException 404 (Sede_no_encontrada S))) \<and>
   (\<forall>sede. (\<exists>d\<in>set (collection_franquicia s). matches d (q_franquicia F)) \<and>
      find_one (q_sede S) (collection_locales s) = Some sede \<and>
      truthy (py_get sede ''franquicia_id'') \<and> py_get sede ''franquicia_id'' \<noteq> VStr F \<longrightarrow>
      asignar_sede F S current_user s =
        Inl (HTTPException 400 (La_sede_ya_pertenece_a_la_franquicia (py_get sede ''franquicia_id'')))) \<and>
   (\<forall>fr sede. find_one (q_franquicia F) (collection_franquicia s) = Some fr \<and>
      (fr ''sedes'' = None \<or> (\<exists>xs. fr ''sedes'' = Some (VArr xs))) \<and>
      find_one (q_sede S) (collection_locales s) = Some sede \<and>
      (\<not> truthy (py_get sede ''franquicia_id'') \<or> py_get sede ''franquicia_id'' = VStr F) \<longrightarrow>
      (\<exists>r s'. asignar_sede F S current_user s = Inr (r, s') \<and> success r \<and>
         usuarios_actualizados r =
           length (filter (\<lambda>(old, new). new ''franquicia_id'' \<noteq> old ''franquicia_id'')
                     (zip (collection_auth s) (collection_auth s')))))"
proof (intro conjI allI impI)
  assume "\<forall>d\<in>set (collection_franquicia s). \<not> matches d (q_franquicia F)"
  then have "find_one (q_franquicia F) (collection_franquicia s) = None"
    by (simp add: find_one_None_iff)
  with rol show "asignar_sede F S current_user s = Inl (HTTPException 404 Franquicia_no_encontrada)"
    by (simp add: asignar_sede_def)
next
  assume h: "(\<exists>d\<in>set (collection_franquicia s). matches d (q_franquicia F)) \<and>
    (\<forall>d\<in>set (collection_locales s). \<not> matches d (q_sede S))"
  then obtain fr where "find_one (q_franquicia F) (collection_franquicia s) = Some fr"
    using find_one_None_iff[of "q_franquicia F" "collection_franquicia s"] by (cases "find_one (q_franquicia F) (collection_franquicia s)") auto
  moreover from h have "find_one (q_sede S) (collection_locales s) = None"
    by (simp add: find_one_None_iff)
  ultimately show "asignar_sede F S current_user s = Inl (HTTPException 404 (Sede_no_encontrada S))"
    using rol by (simp add: asignar_sede_def)
next
  fix sede
  assume h: "(\<exists>d\<in>set (collection_franquicia s). matches d (q_franquicia F)) \<and>
      find_one (q_sede S) (collection_locales s) = Some sede \<and>
      truthy (py_get sede ''franquicia_id'') \<and> py_get sede ''franquicia_id'' \<noteq> VStr F"
  then obtain fr where "find_one (q_franquicia F) (collection_franquicia s) = Some fr"
    using find_one_None_iff[of "q_franquicia F" "collection_franquicia s"] by (cases "find_one (q_franquicia F) (collection_franquicia s)") auto
  with h rol show "asignar_sede F S current_user s =
        Inl (HTTPException 400 (La_sede_ya_pertenece_a_la_franquicia (py_get sede ''franquicia_id'')))"
    by (simp add: asignar_sede_def Let_def)
next
  fix fr sede
  assume h: "find_one (q_franquicia F) (collection_franquicia s) = Some fr \<and>
      (fr ''sedes'' = None \<or> (\<exists>xs. fr ''sedes'' = Some (VArr xs))) \<and>
      find_one (q_sede S) (collection_locales s) = Some sede \<and>
      (\<not> truthy (py_get sede ''franquicia_id'') \<or> py_get sede ''franquicia_id'' = VStr F)"
  then obtain fr' where fr': "op_addToSet ''sedes'' S fr = Some fr'"
    using op_addToSet_defined by blast
  with h obtain frs' where frs': "update_one (q_franquicia F) (op_addToSet ''sedes'' S) (collection_franquicia s) = Some frs'"
    using update_one_found by blast
  obtain locs' where locs': "update_one (q_sede S) (\<lambda>d. Some (op_set ''franquicia_id'' (VStr F) d)) (collection_locales s) = Some locs'"
    using update_one_total by blast
  from h rol frs' locs' show "\<exists>r s'. asignar_sede F S current_user s = Inr (r, s') \<and> success r \<and>
         usuarios_actualizados r =
           length (filter (\<lambda>(old, new). new ''franquicia_id'' \<noteq> old ''franquicia_id'')
                     (zip (collection_auth s) (collection_auth s')))"
    by (auto simp: asignar_sede_def Let_def modified_count_op_set)
qed

theorem asignar_sede_outcomes_witness:
  "py_get ej_super_admin ''rol'' = VStr ''super_admin'' \<and>
   asignar_sede ''FQ-1'' ''SD-1'' ej_super_admin (ej_db\<lparr>collection_franquicia := []\<rparr>) =
     Inl (HTTPException 404 Franquicia_no_encontrada) \<and>
   asignar_sede ''FQ-1'' ''SD-1'' ej_super_admin (ej_db\<lparr>collection_locales := []\<rparr>) =
     Inl (HTTPException 404 (Sede_no_encontrada ''SD-1'')) \<and>
   asignar_sede ''FQ-1'' ''SD-1'' ej_super_admin (ej_db\<lparr>collection_locales := [ej_sede_ajena]\<rparr>) =
     Inl (HTTPException 400 (La_sede_ya_pertenece_a_la_franquicia (VStr ''FQ-2''))) \<and>
   (\<exists>r s'. asignar_sede ''FQ-1'' ''SD-1'' ej_super_admin ej_db = Inr (r, s') \<and> success r \<and>
      usuarios_actualizados r = 1)"
  using asignar_sede_outcomes [where current_user = ej_super_admin and F = "''FQ-1''" and S = "''SD-1''"
          and s = "ej_db\<lparr>collection_franquicia := []\<rparr>"]
        asignar_sede_outcomes [where current_user = ej_super_admin and F = "''FQ-1''" and S = "''SD-1''"
          and s = "ej_db\<lparr>collection_locales := []\<rparr>"]
        asignar_sede_outcomes [where current_user = ej_super_admin and F = "''FQ-1''" and S = "''SD-1''"
          and s = "ej_db\<lparr>collection_locales := [ej_sede_ajena]\<rparr>"]
        asignar_sede_outcomes [where current_user = ej_super_admin and F = "''FQ-1''" and S = "''SD-1''"
          and s = ej_db]
  by (simp add: ej_defs py_get_def find_one_def asignar_sede_def op_addToSet_def op_set_def
        update_many_def modified_count_def fun_upd_idem_iff)

text \<open>
  Claim C9. \<open>asignar_sede\<close> is idempotent: after a successful call, the same call is
  accepted again and leaves the whole store (the franchise's site list, the site's
  franchise tag, the users' franchise tags) as the first call left it; it reports no
  user modified.
\<close>

theorem asignar_sede_idempotent:
  assumes "asignar_sede F S current_user s = Inr (r1, s1)"
  shows "asignar_sede F S current_user s1 = Inr (r1\<lparr>usuarios_actualizados := 0\<rparr>, s1)"
proof -
  from assms obtain fr fr' sede pre post pre2 post2 where
    rol: "py_get current_user ''rol'' = VStr ''super_admin''" and
    pre: "\<forall>x\<in>set pre. \<not> matches x (q_franquicia F)" and
    mfr: "matches fr (q_franquicia F)" and
    fr': "op_addToSet ''sedes'' S fr = Some fr'" and
    c1: "collection_franquicia s1 = pre @ fr' # post" and
    pre2: "\<forall>x\<in>set pre2. \<not> matches x (q_sede S)" and
    msd: "matches sede (q_sede S)" and
    l1: "collection_locales s1 = pre2 @ op_set ''franquicia_id'' (VStr F) sede # post2" and
    a1: "collection_auth s1 = update_many (q_sede S) (op_set ''franquicia_id'' (VStr F)) (collection_auth s)"
    by (rule asignar_sede_state)
  from assms have r1: "r1 = \<lparr>success = True, msg_sede = S, msg_franquicia = F,
      usuarios_actualizados = modified_count (q_sede S) (op_set ''franquicia_id'' (VStr F)) (collection_auth s)\<rparr>"
    by (rule asignar_sede_Inr)
  let ?sd = "op_set ''franquicia_id'' (VStr F) sede"
  have mfr': "matches fr' (q_franquicia F)"
    using mfr matches_q_franquicia_addToSet[OF fr'] by simp
  have f1: "find_one (q_franquicia F) (collection_franquicia s1) = Some fr'"
    unfolding c1 by (rule find_one_prefix[OF pre mfr'])
  have w1: "update_one (q_franquicia F) (op_addToSet ''sedes'' S) (collection_franquicia s1)
            = Some (collection_franquicia s1)"
    unfolding c1 update_one_prefix[OF pre mfr'] op_addToSet_again[OF fr'] by simp
  have msd': "matches ?sd (q_sede S)" using msd by (simp only: matches_q_sede_op_set)
  have f2: "find_one (q_sede S) (collection_locales s1) = Some ?sd"
    unfolding l1 by (rule find_one_prefix[OF pre2 msd'])
  have w2: "update_one (q_sede S) (\<lambda>d. Some (op_set ''franquicia_id'' (VStr F) d)) (collection_locales s1)
            = Some (collection_locales s1)"
    unfolding l1 update_one_prefix[OF pre2 msd'] by (simp add: op_set_def)
  have tag: "py_get ?sd ''franquicia_id'' = VStr F"
    by (simp add: py_get_def op_set_def)
  have w3: "update_many (q_sede S) (op_set ''franquicia_id'' (VStr F)) (collection_auth s1) = collection_auth s1"
    unfolding a1 by (rule update_many_op_set_twice)
  have n3: "modified_count (q_sede S) (op_set ''franquicia_id'' (VStr F)) (collection_auth s1) = 0"
    unfolding a1 by (rule modified_count_op_set_twice)
  show ?thesis
    unfolding asignar_sede_def Let_def
    using rol f1 f2 w1 w2 tag w3 n3 by (simp add: r1)
qed

theorem asignar_sede_idempotent_witness:
  "asignar_sede ''FQ-1'' ''SD-1'' ej_super_admin ej_db = Inr (ej_resp_asignada, ej_db_asignada) \<and>
   asignar_sede ''FQ-1'' ''SD-1'' ej_super_admin ej_db_asignada =
     Inr (ej_resp_asignada\<lparr>usuarios_actualizados := 0\<rparr>, ej_db_asignada)"
proof -
  have h: "asignar_sede ''FQ-1'' ''SD-1'' ej_super_admin ej_db = Inr (ej_resp_asignada, ej_db_asignada)"
    by (simp add: ej_defs py_get_def find_one_def asignar_sede_def op_addToSet_def op_set_def
          update_many_def modified_count_def fun_upd_idem_iff)
  from asignar_sede_idempotent [OF h] h show ?thesis by simp
qed

text \<open>
  Claim C3. When every site document of \<open>S\<close> and every user document bound to \<open>S\<close>
  lacks the \<open>franquicia_id\<close> field, a successful \<open>asignar_sede\<close> followed by
  \<open>quitar_sede\<close> on the same franchise and site succeeds, leaves the site and its users
  without a franchise tag (the two collections are as before the first call), and leaves
  the franchise's site list without \<open>S\<close>. When the list did not hold \<open>S\<close> before,
  the whole store is as before.
\<close>

theorem asignar_then_quitar_restores:
  assumes asg: "asignar_sede F S current_user s = Inr (r1, s1)"
    and sede_sin_tag: "\<forall>d\<in>set (collection_locales s). matches d (q_sede S) \<longrightarrow> d ''franquicia_id'' = None"
    and usuarios_sin_tag: "\<forall>d\<in>set (collection_auth s). matches d (q_sede S) \<longrightarrow> d ''franquicia_id'' = None"
  shows "\<exists>r2 s2. quitar_sede F S current_user s1 = Inr (r2, s2) \<and>
     (\<forall>d\<in>set (collection_locales s2). matches d (q_sede S) \<longrightarrow> d ''franquicia_id'' = None) \<and>
     (\<forall>d\<in>set (collection_auth s2). matches d (q_sede S) \<longrightarrow> d ''franquicia_id'' = None) \<and>
     (\<exists>fr2 xs. find_one (q_franquicia F) (collection_franquicia s2) = Some fr2 \<and>
        fr2 ''sedes'' = Some (VArr xs) \<and> S \<notin> set xs) \<and>
     collection_locales s2 = collection_locales s \<and>
     collection_auth s2 = collection_auth s \<and>
     (\<forall>fr0 xs0. find_one (q_franquicia F) (collection_franquicia s) = Some fr0 \<and>
        fr0 ''sedes'' = Some (VArr xs0) \<and> S \<notin> set xs0 \<longrightarrow> s2 = s)"
proof -
  from asg obtain fr fr' sede pre post pre2 post2 where
    rol: "py_get current_user ''rol'' = VStr ''super_admin''" and
    c0: "collection_franquicia s = pre @ fr # post" and
    pre: "\<forall>x\<in>set pre. \<not> matches x (q_franquicia F)" and
    mfr: "matches fr (q_franquicia F)" and
    fr': "op_addToSet ''sedes'' S fr = Some fr'" and
    c1: "collection_franquicia s1 = pre @ fr' # post" and
    l0: "collection_locales s = pre2 @ sede # post2" and
    pre2: "\<forall>x\<in>set pre2. \<not> matches x (q_sede S)" and
    msd: "matches sede (q_sede S)" and
    l1: "collection_locales s1 = pre2 @ op_set ''franquicia_id'' (VStr F) sede # post2" and
    a1: "collection_auth s1 = update_many (q_sede S) (op_set ''franquicia_id'' (VStr F)) (collection_auth s)" and
    k1: "collection_clients s1 = collection_clients s" and
    v1: "collection_servicios s1 = collection_servicios s"
    by (rule asignar_sede_state)
  let ?sd = "op_set ''franquicia_id'' (VStr F) sede"
  have mfr': "matches fr' (q_franquicia F)"
    using mfr matches_q_franquicia_addToSet[OF fr'] by simp
  have f1: "find_one (q_franquicia F) (collection_franquicia s1) = Some fr'"
    unfolding c1 by (rule find_one_prefix[OF pre mfr'])
  have isin: "py_in_sedes S fr' = Some True"
    by (rule py_in_sedes_after_addToSet[OF fr'])
  from op_pull_after_addToSet[OF fr'] obtain xs where
    pull: "op_pull ''sedes'' S fr' = Some (fr'(''sedes'' \<mapsto> VArr xs))" and
    notin: "S \<notin> set xs" and
    same: "\<forall>xs0. fr ''sedes'' = Some (VArr xs0) \<and> S \<notin> set xs0 \<longrightarrow> fr'(''sedes'' \<mapsto> VArr xs) = fr"
    by blast
  let ?fr2 = "fr'(''sedes'' \<mapsto> VArr xs)"
  have w1: "update_one (q_franquicia F) (op_pull ''sedes'' S) (collection_franquicia s1) = Some (pre @ ?fr2 # post)"
    unfolding c1 update_one_prefix[OF pre mfr'] pull by simp
  have msd': "matches ?sd (q_sede S)" using msd by (simp only: matches_q_sede_op_set)
  have sede_tag: "sede ''franquicia_id'' = None"
    using sede_sin_tag msd unfolding l0 by simp
  have w2: "update_one (q_sede S) (\<lambda>d. Some (op_unset ''franquicia_id'' d)) (collection_locales s1)
            = Some (collection_locales s)"
    unfolding l1 update_one_prefix[OF pre2 msd'] l0 using unset_after_set[of sede "VStr F", OF sede_tag] by simp
  have w3: "update_many (q_sede S) (op_unset ''franquicia_id'') (collection_auth s1) = collection_auth s"
    unfolding a1 by (rule update_many_unset_after_set[OF usuarios_sin_tag])
  let ?s2 = "s1\<lparr>collection_franquicia := pre @ ?fr2 # post,
                 collection_locales := collection_locales s,
                 collection_auth := collection_auth s\<rparr>"
  let ?r2 = "\<lparr>success = True, msg_sede = S, msg_franquicia = F,
              usuarios_actualizados = modified_count (q_sede S) (op_unset ''franquicia_id'') (collection_auth s1)\<rparr>"
  have q: "quitar_sede F S current_user s1 = Inr (?r2, ?s2)"
    unfolding quitar_sede_def using rol f1 isin w1 w2 w3 by simp
  have mfr2: "matches ?fr2 (q_franquicia F)" using mfr' by simp
  have f2: "find_one (q_franquicia F) (collection_franquicia ?s2) = Some ?fr2"
    using find_one_prefix[OF pre mfr2] by simp
  have restore: "\<forall>fr0 xs0. find_one (q_franquicia F) (collection_franquicia s) = Some fr0 \<and>
        fr0 ''sedes'' = Some (VArr xs0) \<and> S \<notin> set xs0 \<longrightarrow> ?s2 = s"
  proof (intro allI impI)
    fix fr0 xs0
    assume h: "find_one (q_franquicia F) (collection_franquicia s) = Some fr0 \<and>
        fr0 ''sedes'' = Some (VArr xs0) \<and> S \<notin> set xs0"
    have "find_one (q_franquicia F) (collection_franquicia s) = Some fr"
      unfolding c0 by (rule find_one_prefix[OF pre mfr])
    with h have "fr0 = fr" by simp
    with h same have "?fr2 = fr" by blast
    then show "?s2 = s" using c0 k1 v1 by (intro db.equality) simp_all
  qed
  show ?thesis
    apply (rule exI[of _ ?r2], rule exI[of _ ?s2])
    apply (intro conjI)
          apply (rule q)
    subgoal using sede_sin_tag by simp
    subgoal using usuarios_sin_tag by simp
    subgoal using f2 notin by auto
    subgoal by simp
    subgoal by simp
    subgoal by (rule restore)
    done
qed

theorem asignar_then_quitar_restores_witness:
  "asignar_sede ''FQ-1'' ''SD-1'' ej_super_admin ej_db = Inr (ej_resp_asignada, ej_db_asignada) \<and>
   list_all (\<lambda>d. matches d (q_sede ''SD-1'') \<longrightarrow> d ''franquicia_id'' = None) (collection_locales ej_db) \<and>
   list_all (\<lambda>d. matches d (q_sede ''SD-1'') \<longrightarrow> d ''franquicia_id'' = None) (collection_auth ej_db) \<and>
   (\<exists>r2. quitar_sede ''FQ-1'' ''SD-1'' ej_super_admin ej_db_asignada = Inr (r2, ej_db))"
proof -
  have h: "asignar_sede ''FQ-1'' ''SD-1'' ej_super_admin ej_db = Inr (ej_resp_asignada, ej_db_asignada)"
    by (simp add: ej_defs py_get_def find_one_def asignar_sede_def op_addToSet_def op_set_def
          update_many_def modified_count_def fun_upd_idem_iff)
  have l: "\<forall>d\<in>set (collection_locales ej_db). matches d (q_sede ''SD-1'') \<longrightarrow> d ''franquicia_id'' = None"
    by (simp add: ej_defs)
  have a: "\<forall>d\<in>set (collection_auth ej_db). matches d (q_sede ''SD-1'') \<longrightarrow> d ''franquicia_id'' = None"
    by (simp add: ej_defs)
  have f: "find_one (q_franquicia ''FQ-1'') (collection_franquicia ej_db) = Some ej_franquicia"
    by (simp add: ej_defs find_one_def)
  have x: "ej_franquicia ''sedes'' = Some (VArr []) \<and> ''SD-1'' \<notin> set []"
    by (simp add: ej_defs)
  from asignar_then_quitar_restores [OF h l a] f x
  have "\<exists>r2. quitar_sede ''FQ-1'' ''SD-1'' ej_super_admin ej_db_asignada = Inr (r2, ej_db)"
    by blast
  with h l a show ?thesis by (simp add: list_all_iff)
qed

section \<open>Claims on the client routes\<close>

lemma total_paginas_pos: "0 < (n::int) \<Longrightarrow> 1 \<le> l \<Longrightarrow> 1 \<le> (n + l - 1) div l"
  using zdiv_mono1[of l "n + l - 1" l] by simp

lemma total_paginas_gt0:
  assumes "1 \<le> (l::int)"
  shows "0 < (if n > 0 then (n + l - 1) div l else 1)"
proof (cases "n > 0")
  case True
  then have "1 \<le> (n + l - 1) div l" using assms by (rule total_paginas_pos)
  with True show ?thesis by simp
next
  case False
  then show ?thesis by simp
qed

lemma find_many_scope_text:
  "find_many (QAnd [QFld ''franquicia_id'' (CEq (VStr F)), QOr conds]) c =
     filter (\<lambda>d. eq_match (d ''franquicia_id'') (VStr F) \<and> list_ex (matches d) conds) c"
  by (simp add: find_many_def)

lemma find_many_scope:
  "find_many (QFld ''franquicia_id'' (CEq (VStr F))) c =
     filter (\<lambda>d. eq_match (d ''franquicia_id'') (VStr F)) c"
  by (simp add: find_many_def)

lemma listar_clientes_scope_aux:
  assumes rol: "py_get current_user ''rol'' = VStr ''admin_sede'' \<or> py_get current_user ''rol'' = VStr ''estilista''"
    and sede: "py_get current_user ''sede_id'' = VStr S" "S \<noteq> []"
    and site: "find_one (q_sede S) (collection_locales s) = Some sede_info"
    and tag: "py_get sede_info ''franquicia_id'' = VStr F" "F \<noteq> []"
    and lim: "1 \<le> limite" "limite \<le> 500"
  shows "listar_clientes regex_i filtro limite current_user s =
         (case texto_clientes regex_i filtro of
            None \<Rightarrow> Inl (HTTPException 500 Error_al_listar_clientes)
          | Some texto \<Rightarrow>
            (case those (map cliente_to_dict
                    (take (nat limite)
                       (filter (\<lambda>c. eq_match (c ''franquicia_id'') (VStr F) \<and> texto c)
                          (collection_clients s)))) of
               None \<Rightarrow> Inl (HTTPException 500 Error_al_listar_clientes)
             | Some clientes \<Rightarrow> Inr clientes))"
proof -
  have g: "get_franquicia_id_de_sede (VStr S) (collection_locales s) = VStr F"
    using sede(2) site tag(1) by (simp add: get_franquicia_id_de_sede_def)
  consider (none) "filtro = None \<or> filtro = Some []"
    | (bad) f where "filtro = Some f" "f \<noteq> []" "regex_i f = None"
    | (ok) f p where "filtro = Some f" "f \<noteq> []" "regex_i f = Some p"
    by (cases filtro) auto
  then show ?thesis
  proof cases
    case none
    then show ?thesis
      using rol lim unfolding listar_clientes_def texto_clientes_def
      by (auto simp: sede(1) g tag(2) find_many_scope Let_def)
  next
    case bad
    then show ?thesis
      using rol lim unfolding listar_clientes_def texto_clientes_def
      by (auto simp: sede(1) g tag(2) Let_def)
  next
    case ok
    then show ?thesis
      using rol lim unfolding listar_clientes_def texto_clientes_def
      by (auto simp: sede(1) g tag(2) find_many_scope_text is_empty_query_def Let_def)
  qed
qed

lemma listar_todos_scope_aux:
  assumes rol: "py_get current_user ''rol'' = VStr ''admin_sede'' \<or> py_get current_user ''rol'' = VStr ''estilista''"
    and sede: "py_get current_user ''sede_id'' = VStr S" "S \<noteq> []"
    and site: "find_one (q_sede S) (collection_locales s) = Some sede_info"
    and tag: "py_get sede_info ''franquicia_id'' = VStr F" "F \<noteq> []"
    and lim: "1 \<le> limite" "limite \<le> 100" "1 \<le> pagina"
  shows "listar_todos regex_i sort_nombre filtro limite pagina current_user s =
         (case texto_todos regex_i filtro of
            None \<Rightarrow> Inl (HTTPException 500 Error_al_obtener_clientes)
          | Some texto \<Rightarrow>
            (let seleccion = filter (\<lambda>c. eq_match (c ''franquicia_id'') (VStr F) \<and> texto c)
                               (collection_clients s);
                 total = int (length seleccion);
                 total_paginas = (if total > 0 then (total + limite - 1) div limite else 1);
                 en_pagina = take (nat limite) (drop (nat ((pagina - 1) * limite)) (sort_nombre seleccion))
             in if pagina > total_paginas
                then Inl (HTTPException 404 (Pagina_no_existe pagina total_paginas))
                else Inr \<lparr>pg_clientes = map (\<lambda>c. cliente_to_dict_ligero (projection c)) en_pagina,
                          pg_total = total,
                          pg_pagina = pagina,
                          pg_limite = limite,
                          pg_total_paginas = total_paginas,
                          pg_tiene_siguiente = (pagina < total_paginas),
                          pg_tiene_anterior = (pagina > 1),
                          pg_rango_inicio = (if en_pagina \<noteq> [] then (pagina - 1) * limite + 1 else 0),
                          pg_rango_fin = (pagina - 1) * limite + int (length en_pagina)\<rparr>))"
proof -
  have tp: "\<And>n. 0 < (if n > 0 then (n + limite - 1) div limite else 1)"
    using lim(1) by (rule total_paginas_gt0)
  have r: "py_get current_user ''rol'' \<noteq> VStr ''super_admin''"
    using rol by auto
  consider (none) "filtro_escapado_de filtro = []"
    | (bad) "filtro_escapado_de filtro \<noteq> []"
        "filtro_condiciones_todos regex_i (filtro_escapado_de filtro) = None"
    | (ok) conds where "filtro_escapado_de filtro \<noteq> []"
        "filtro_condiciones_todos regex_i (filtro_escapado_de filtro) = Some conds"
    by (cases "filtro_condiciones_todos regex_i (filtro_escapado_de filtro)") auto
  then show ?thesis
  proof cases
    case none
    then show ?thesis
      using rol lim tp[of "int (length (filter (\<lambda>c. eq_match (c ''franquicia_id'') (VStr F)) (collection_clients s)))"]
      unfolding listar_todos_def texto_todos_def
      by (auto simp: sede site tag find_many_scope is_empty_query_def Let_def)
  next
    case bad
    then show ?thesis
      using rol lim unfolding listar_todos_def texto_todos_def
      by (auto simp: sede site tag Let_def)
  next
    case ok
    then show ?thesis
      using rol lim tp[of "int (length (filter (\<lambda>c. eq_match (c ''franquicia_id'') (VStr F) \<and> list_ex (matches c) conds) (collection_clients s)))"]
      unfolding listar_todos_def texto_todos_def
      by (auto simp: sede site tag find_many_scope_text is_empty_query_def Let_def)
  qed
qed

lemma ej_find_sede:
  "find_one (QFld ''sede_id'' (CEq (VStr ''SD-1''))) (collection_locales ej_db_clientes)
   = Some (ej_sede(''franquicia_id'' \<mapsto> VStr ''FQ-1''))"
  by (simp add: ej2 ej_defs find_one_def)

lemma ej_seleccion:
  "filter (\<lambda>c. eq_match (c ''franquicia_id'') (VStr ''FQ-1''))
     (collection_clients ej_db_clientes) = [ej_cliente_franquicia]"
  by (simp add: ej2 ej_defs)

lemma ej_texto_clientes:
  "texto_clientes ej_regex None = Some (\<lambda>c. True)"
  "texto_clientes ej_regex (Some ''CL'') =
     Some (\<lambda>c. list_ex (matches c) (filtro_condiciones (sublist ''CL'')))"
  by (simp_all add: texto_clientes_def ej_regex_def)

lemma ej_seleccion_texto:
  "filter (\<lambda>c. eq_match (c ''franquicia_id'') (VStr ''FQ-1'') \<and>
               list_ex (matches c) (filtro_condiciones (sublist ''CL'')))
     (collection_clients ej_db_clientes) = [ej_cliente_franquicia]"
  by (simp add: ej2 ej_defs filtro_condiciones_def sublist_code)

lemma ej_texto_todos:
  "texto_todos ej_regex None = Some (\<lambda>c. True)"
  by (simp add: texto_todos_def filtro_escapado_de_def)

lemma ej_to_dict:
  "cliente_to_dict ej_cliente_franquicia
     = Some (ej_cliente_franquicia(''_id'' \<mapsto> VStr ''00000000000000000000000c''))"
  by (simp add: cliente_to_dict_def ej_cliente_franquicia_def py_get_def)

text \<open>
  Claim C1, as the code has it. For a caller with role \<open>admin_sede\<close> or \<open>estilista\<close>
  bound to a site \<open>S\<close> whose document carries the franchise tag \<open>F\<close> (both non-empty),
  every listing selects exactly the clients whose \<open>franquicia_id\<close> matches \<open>F\<close> and
  that meet the text condition of the search, when there is one. \<open>listar_clientes\<close>, for
  every \<open>limite\<close> it accepts, returns the first \<open>limite\<close> of them; \<open>listar_todos\<close>,
  for every page and \<open>limite\<close> it accepts, counts them, answers 404 past the last page
  and otherwise returns the page of them in the store's order. Clients without scope
  fields, clients tagged with \<open>S\<close> but not with \<open>F\<close>, and clients of another site and
  franchise are in no listing.
\<close>

theorem listar_clientes_scope_franquicia:
  assumes rol: "py_get current_user ''rol'' = VStr ''admin_sede'' \<or> py_get current_user ''rol'' = VStr ''estilista''"
    and sede: "py_get current_user ''sede_id'' = VStr S" "S \<noteq> []"
    and site: "find_one (q_sede S) (collection_locales s) = Some sede_info"
    and tag: "py_get sede_info ''franquicia_id'' = VStr F" "F \<noteq> []"
  shows
   "(1 \<le> limite \<and> limite \<le> 500 \<longrightarrow>
       listar_clientes regex_i filtro limite current_user s =
         (case texto_clientes regex_i filtro of
            None \<Rightarrow> Inl (HTTPException 500 Error_al_listar_clientes)
          | Some texto \<Rightarrow>
            (case those (map cliente_to_dict
                    (take (nat limite)
                       (filter (\<lambda>c. eq_match (c ''franquicia_id'') (VStr F) \<and> texto c)
                          (collection_clients s)))) of
               None \<Rightarrow> Inl (HTTPException 500 Error_al_listar_clientes)
             | Some clientes \<Rightarrow> Inr clientes))) \<and>
    (1 \<le> limite \<and> limite \<le> 100 \<and> 1 \<le> pagina \<longrightarrow>
       listar_todos regex_i sort_nombre filtro limite pagina current_user s =
         (case texto_todos regex_i filtro of
            None \<Rightarrow> Inl (HTTPException 500 Error_al_obtener_clientes)
          | Some texto \<Rightarrow>
            (let seleccion = filter (\<lambda>c. eq_match (c ''franquicia_id'') (VStr F) \<and> texto c)
                               (collection_clients s);
                 total = int (length seleccion);
                 total_paginas = (if total > 0 then (total + limite - 1) div limite else 1);
                 en_pagina = take (nat limite) (drop (nat ((pagina - 1) * limite)) (sort_nombre seleccion))
             in if pagina > total_paginas
                then Inl (HTTPException 404 (Pagina_no_existe pagina total_paginas))
                else Inr \<lparr>pg_clientes = map (\<lambda>c. cliente_to_dict_ligero (projection c)) en_pagina,
                          pg_total = total,
                          pg_pagina = pagina,
                          pg_limite = limite,
                          pg_total_paginas = total_paginas,
                          pg_tiene_siguiente = (pagina < total_paginas),
                          pg_tiene_anterior = (pagina > 1),
                          pg_rango_inicio = (if en_pagina \<noteq> [] then (pagina - 1) * limite + 1 else 0),
                          pg_rango_fin = (pagina - 1) * limite + int (length en_pagina)\<rparr>)))"
proof (intro conjI impI)
  assume "1 \<le> limite \<and> limite \<le> 500"
  then have "1 \<le> limite" "limite \<le> 500" by simp_all
  with rol sede site tag show "listar_clientes regex_i filtro limite current_user s =
         (case texto_clientes regex_i filtro of
            None \<Rightarrow> Inl (HTTPException 500 Error_al_listar_clientes)
          | Some texto \<Rightarrow>
            (case those (map cliente_to_dict
                    (take (nat limite)
                       (filter (\<lambda>c. eq_match (c ''franquicia_id'') (VStr F) \<and> texto c)
                          (collection_clients s)))) of
               None \<Rightarrow> Inl (HTTPException 500 Error_al_listar_clientes)
             | Some clientes \<Rightarrow> Inr clientes))"
    by (rule listar_clientes_scope_aux)
next
  assume "1 \<le> limite \<and> limite \<le> 100 \<and> 1 \<le> pagina"
  then have "1 \<le> limite" "limite \<le> 100" "1 \<le> pagina" by simp_all
  with rol sede site tag show "listar_todos regex_i sort_nombre filtro limite pagina current_user s =
         (case texto_todos regex_i filtro of
            None \<Rightarrow> Inl (HTTPException 500 Error_al_obtener_clientes)
          | Some texto \<Rightarrow>
            (let seleccion = filter (\<lambda>c. eq_match (c ''franquicia_id'') (VStr F) \<and> texto c)
                               (collection_clients s);
                 total = int (length seleccion);
                 total_paginas = (if total > 0 then (total + limite - 1) div limite else 1);
                 en_pagina = take (nat limite) (drop (nat ((pagina - 1) * limite)) (sort_nombre seleccion))
             in if pagina > total_paginas
                then Inl (HTTPException 404 (Pagina_no_existe pagina total_paginas))
                else Inr \<lparr>pg_clientes = map (\<lambda>c. cliente_to_dict_ligero (projection c)) en_pagina,
                          pg_total = total,
                          pg_pagina = pagina,
                          pg_limite = limite,
                          pg_total_paginas = total_paginas,
                          pg_tiene_siguiente = (pagina < total_paginas),
                          pg_tiene_anterior = (pagina > 1),
                          pg_rango_inicio = (if en_pagina \<noteq> [] then (pagina - 1) * limite + 1 else 0),
                          pg_rango_fin = (pagina - 1) * limite + int (length en_pagina)\<rparr>))"
    by (rule listar_todos_scope_aux)
qed

text \<open>
  On the example store: the listing of 200 clients, without text and with a text that
  the identifier of every client holds, is the one client tagged \<open>FQ-1\<close>; the first
  page of \<open>listar_todos\<close> holds that client and the second does not exist.
\<close>

theorem listar_clientes_scope_franquicia_witness:
  "py_get ej_admin_sede ''rol'' = VStr ''admin_sede'' \<and>
   py_get ej_admin_sede ''sede_id'' = VStr ''SD-1'' \<and>
   find_one (q_sede ''SD-1'') (collection_locales ej_db_clientes)
     = Some (ej_sede(''franquicia_id'' \<mapsto> VStr ''FQ-1'')) \<and>
   listar_clientes ej_regex None 200 ej_admin_sede ej_db_clientes =
     Inr [ej_cliente_franquicia(''_id'' \<mapsto> VStr ''00000000000000000000000c'')] \<and>
   listar_clientes ej_regex (Some ''CL'') 200 ej_admin_sede ej_db_clientes =
     Inr [ej_cliente_franquicia(''_id'' \<mapsto> VStr ''00000000000000000000000c'')] \<and>
   (\<exists>r. listar_todos ej_regex id None 30 1 ej_admin_sede ej_db_clientes = Inr r \<and>
        pg_total r = 1 \<and>
        pg_clientes r = [cliente_to_dict_ligero (projection ej_cliente_franquicia)]) \<and>
   listar_todos ej_regex id None 30 2 ej_admin_sede ej_db_clientes =
     Inl (HTTPException 404 (Pagina_no_existe 2 1))"
proof -
  have r: "py_get ej_admin_sede ''rol'' = VStr ''admin_sede''"
    and b: "py_get ej_admin_sede ''sede_id'' = VStr ''SD-1''"
    by (simp_all add: ej2 py_get_def)
  have t: "py_get (ej_sede(''franquicia_id'' \<mapsto> VStr ''FQ-1'')) ''franquicia_id'' = VStr ''FQ-1''"
    by (simp add: py_get_def)
  note th = listar_clientes_scope_franquicia
         [where current_user = ej_admin_sede and S = "''SD-1''" and s = ej_db_clientes
            and sede_info = "ej_sede(''franquicia_id'' \<mapsto> VStr ''FQ-1'')" and F = "''FQ-1''"
            and regex_i = ej_regex and sort_nombre = id,
          OF disjI1 [OF r] b _ ej_find_sede t]
  have c1: "listar_clientes ej_regex None 200 ej_admin_sede ej_db_clientes =
       Inr [ej_cliente_franquicia(''_id'' \<mapsto> VStr ''00000000000000000000000c'')]"
    using th [of 200 None 1] by (simp add: ej_texto_clientes ej_seleccion ej_to_dict)
  have c2: "listar_clientes ej_regex (Some ''CL'') 200 ej_admin_sede ej_db_clientes =
       Inr [ej_cliente_franquicia(''_id'' \<mapsto> VStr ''00000000000000000000000c'')]"
    using th [of 200 "Some ''CL''" 1] by (simp add: ej_texto_clientes ej_seleccion_texto ej_to_dict)
  have c3: "\<exists>r. listar_todos ej_regex id None 30 1 ej_admin_sede ej_db_clientes = Inr r \<and>
        pg_total r = 1 \<and>
        pg_clientes r = [cliente_to_dict_ligero (projection ej_cliente_franquicia)]"
    using th [of 30 None 1] by (simp add: ej_texto_todos ej_seleccion)
  have c4: "listar_todos ej_regex id None 30 2 ej_admin_sede ej_db_clientes =
       Inl (HTTPException 404 (Pagina_no_existe 2 1))"
    using th [of 30 None 2] by (simp add: ej_texto_todos ej_seleccion)
  from r b ej_find_sede c1 c2 c3 c4 show ?thesis by simp
qed

text \<open>
  Claim C1, as stated, fails. The caller is an \<open>admin_sede\<close> of \<open>SD-1\<close>, which belongs
  to \<open>FQ-1\<close>. The store holds a client without scope fields and a client of \<open>SD-1\<close>
  whose franchise tag is null (as \<open>crear_cliente\<close> writes it while the site has no
  franchise); the listing returns neither, only the client tagged \<open>FQ-1\<close>.
\<close>

theorem listar_clientes_union_counterexample:
  "ej_cliente_global ''sede_id'' = None \<and> ej_cliente_global ''franquicia_id'' = None \<and>
   ej_cliente_sede ''sede_id'' = Some (VStr ''SD-1'') \<and>
   collection_clients ej_db_clientes =
     [ej_cliente_global, ej_cliente_sede, ej_cliente_franquicia, ej_cliente_ajeno] \<and>
   listar_clientes ej_regex None 100 ej_admin_sede ej_db_clientes =
     Inr [ej_cliente_franquicia(''_id'' \<mapsto> VStr ''00000000000000000000000c'')]"
  by (simp add: ej2 ej_defs listar_clientes_def get_franquicia_id_de_sede_def find_one_def find_many_def
       py_get_def cliente_to_dict_def Let_def)

lemma ej_verificar:
  "verificar_duplicado_cliente (py_get ej_payload_duplicado ''correo'')
      (py_get ej_payload_duplicado ''telefono'') VNull (collection_clients ej_db_clientes)
   = Some ej_cliente_global"
  by (simp add: verificar_duplicado_cliente_def ej2 ej3 ej_defs py_get_def find_one_def)

text \<open>
  Claim C8 at the create route. \<open>verificar_duplicado_cliente\<close> finds a stored client with
  the e-mail of the payload, yet \<open>crear_cliente\<close>, which never calls it, succeeds and
  appends a second client with that e-mail.
\<close>

theorem crear_cliente_duplicate_inserted:
  "verificar_duplicado_cliente (py_get ej_payload_duplicado ''correo'')
      (py_get ej_payload_duplicado ''telefono'') VNull (collection_clients ej_db_clientes)
     = Some ej_cliente_global \<and>
   crear_cliente ej_payload_duplicado ej_admin_sede ''CL-9'' 0 ''00000000000000000000000e'' ej_db_clientes =
     Inr (ej_cliente_nuevo(''_id'' \<mapsto> VStr ''00000000000000000000000e''),
          ej_db_clientes\<lparr>collection_clients :=
            [ej_cliente_global, ej_cliente_sede, ej_cliente_franquicia, ej_cliente_ajeno,
             ej_cliente_nuevo(''_id'' \<mapsto> VOid ''00000000000000000000000e'')]\<rparr>)"
proof -
  have d: "(dict_exclude_none ej_payload_duplicado)
             (''cliente_id'' \<mapsto> VStr ''CL-9'', ''fecha_creacion'' \<mapsto> VInt 0,
              ''creado_por'' \<mapsto> VStr ''admin@example.com'', ''sede_id'' \<mapsto> VStr ''SD-1'',
              ''franquicia_id'' \<mapsto> VStr ''FQ-1'', ''pais'' \<mapsto> VStr ''CO'',
              ''notas_historial'' \<mapsto> VArr [], ''es_global'' := None) = ej_cliente_nuevo"
    by (rule ext) (simp add: dict_exclude_none_def ej3)
  have u: "py_get ej_admin_sede ''rol'' = VStr ''admin_sede''"
    "py_get ej_admin_sede ''sede_id'' = VStr ''SD-1''"
    "py_get_default ej_admin_sede ''email'' (VStr ''unknown'') = VStr ''admin@example.com''"
    by (simp_all add: ej2 py_get_def py_get_default_def)
  have c: "collection_clients ej_db_clientes =
      [ej_cliente_global, ej_cliente_sede, ej_cliente_franquicia, ej_cliente_ajeno]"
    by (simp add: ej_db_clientes_def)
  have "crear_cliente ej_payload_duplicado ej_admin_sede ''CL-9'' 0 ''00000000000000000000000e'' ej_db_clientes =
     Inr (ej_cliente_nuevo(''_id'' \<mapsto> VStr ''00000000000000000000000e''),
          ej_db_clientes\<lparr>collection_clients :=
            [ej_cliente_global, ej_cliente_sede, ej_cliente_franquicia, ej_cliente_ajeno,
             ej_cliente_nuevo(''_id'' \<mapsto> VOid ''00000000000000000000000e'')]\<rparr>)"
    unfolding crear_cliente_def
    by (simp add: u py_or_def ej_find_sede Let_def c)
       (simp add: py_get_def py_get_default_def ej_sede_def d)
  with ej_verificar show ?thesis by simp
qed

text \<open>The edit route rejects the same e-mail and names the field.\<close>

lemma ej_editar_previo:
  "buscar_cliente ''CL-3'' (collection_clients ej_db_clientes) = Some ej_cliente_franquicia"
  "py_get ej_admin_sede ''rol'' = VStr ''admin_sede''"
  "py_get ej_admin_sede ''sede_id'' = VStr ''SD-1''"
  "get_franquicia_id_de_sede (VStr ''SD-1'') (collection_locales ej_db_clientes) = VStr ''FQ-1''"
  "py_get ej_cliente_franquicia ''franquicia_id'' = VStr ''FQ-1''"
  "ej_cliente_franquicia ''_id'' = Some (VOid ''00000000000000000000000c'')"
  "py_ObjectId ''00000000000000000000000c'' = Some (VOid ''00000000000000000000000c'')"
proof -
  show "buscar_cliente ''CL-3'' (collection_clients ej_db_clientes) = Some ej_cliente_franquicia"
    by (simp add: buscar_cliente_def find_one_def ej2 ej_defs)
  show "py_get ej_admin_sede ''rol'' = VStr ''admin_sede''"
    "py_get ej_admin_sede ''sede_id'' = VStr ''SD-1''"
    by (simp_all add: ej2 py_get_def)
  show "get_franquicia_id_de_sede (VStr ''SD-1'') (collection_locales ej_db_clientes) = VStr ''FQ-1''"
    by (simp add: get_franquicia_id_de_sede_def ej_find_sede py_get_def)
  show "py_get ej_cliente_franquicia ''franquicia_id'' = VStr ''FQ-1''"
    "ej_cliente_franquicia ''_id'' = Some (VOid ''00000000000000000000000c'')"
    by (simp_all add: ej_cliente_franquicia_def py_get_def)
  show "py_ObjectId ''00000000000000000000000c'' = Some (VOid ''00000000000000000000000c'')"
    by (simp add: py_ObjectId_def hex_lower_def)
qed

lemma editar_cliente_duplicate_rejected:
  "editar_cliente ''CL-3'' [''correo'' \<mapsto> VStr ''ana@example.com''] ej_admin_sede 0 ej_db_clientes
     = Inl (HTTPException 400 (Ya_existe_otro_cliente_con_este Correo))"
proof -
  have v: "verificar_duplicado_cliente (VStr ''ana@example.com'') VNull (VStr ''00000000000000000000000c'')
             (collection_clients ej_db_clientes) = Some ej_cliente_global"
    by (simp add: verificar_duplicado_cliente_def ej_editar_previo) (simp add: find_one_def ej2 ej_defs)
  have c: "py_get ej_cliente_global ''correo'' = VStr ''ana@example.com''"
    by (simp add: ej_cliente_global_def py_get_def)
  show ?thesis
    unfolding editar_cliente_def
    by (simp add: ej_editar_previo Let_def py_get_def [of "[''correo'' \<mapsto> VStr ''ana@example.com'']"] v c)
qed

text \<open>
  A payload without e-mail whose telephone is that of another client, stored without
  e-mail: both \<open>data_update.correo\<close> and \<open>existing.get("correo")\<close> are \<open>None\<close>, and
  the message names the e-mail.
\<close>

lemma editar_cliente_names_correo_for_telefono:
  "editar_cliente ''CL-3'' [''telefono'' \<mapsto> VStr ''3001112233''] ej_admin_sede 0 ej_db_clientes
     = Inl (HTTPException 400 (Ya_existe_otro_cliente_con_este Correo))"
proof -
  have v: "verificar_duplicado_cliente VNull (VStr ''3001112233'') (VStr ''00000000000000000000000c'')
             (collection_clients ej_db_clientes) = Some ej_cliente_ajeno"
    by (simp add: verificar_duplicado_cliente_def ej_editar_previo) (simp add: find_one_def ej2 ej_defs)
  have c: "py_get ej_cliente_ajeno ''correo'' = VNull"
    by (simp add: ej_cliente_ajeno_def py_get_def)
  show ?thesis
    unfolding editar_cliente_def
    by (simp add: ej_editar_previo Let_def py_get_def [of "[''telefono'' \<mapsto> VStr ''3001112233'']"] v c)
qed

section \<open>Claims on the service routes\<close>

text \<open>
  Claim C4 at an \<open>admin_franquicia\<close> caller of franchise \<open>FQ-1\<close>. The handler scopes
  the query for \<open>admin_sede\<close> only; every other role takes the branch written for
  \<open>super_admin\<close>, so the caller receives every service, those of franchise \<open>FQ-2\<close>
  and of its site \<open>SD-9\<close> included.
\<close>

theorem listar_servicios_admin_franquicia:
  "listar_servicios None ej_admin_franquicia ej_db_servicios =
     Inr [ej_servicio_global(''_id'' \<mapsto> VStr ''0000000000000000000000a1''),
          ej_servicio_franquicia(''_id'' \<mapsto> VStr ''0000000000000000000000a2''),
          ej_servicio_otra_franquicia(''_id'' \<mapsto> VStr ''0000000000000000000000a3''),
          ej_servicio_sede_ajena(''_id'' \<mapsto> VStr ''0000000000000000000000a4'')]"
  by (simp add: listar_servicios_def ej2 ej3 ej_defs find_many_def servicio_to_dict_def)

lemma listar_servicios_other_roles:
  assumes "current_user ''rol'' = Some rol" "rol \<noteq> VStr ''admin_sede''"
  shows "listar_servicios None current_user s =
     (case those (map servicio_to_dict (collection_servicios s)) of
        None \<Rightarrow> Inl (HTTPException 500 Internal_Server_Error) | Some servicios \<Rightarrow> Inr servicios)"
  using assms by (simp add: listar_servicios_def find_many_def)

section \<open>Properties of the dates and of the metrics\<close>

lemmas date_defs = strptime_dmy_def parse_day_def parse_month_def digit_val_def ymd2ord_def days_in_month_def
      days_before_year_def days_before_month_def DAYS_IN_MONTH_def DAYS_BEFORE_MONTH_def is_leap_def

lemma strptime_dmy_Nil: "strptime_dmy [] = Inl Does_not_match_format"
  by (simp add: strptime_dmy_def)

lemma day_us_pos: "0 < day_us"
  by (simp add: day_us_def)

lemma day_arith:
  "start_of_day (d * day_us) = d * day_us"
  "end_of_day (d * day_us) = d * day_us + (day_us - 1)"
  "delta_days (d2 * day_us + (day_us - 1)) (d1 * day_us) = d2 - d1"
  "(d1 * day_us > d2 * day_us + (day_us - 1)) = (d2 < d1)"
proof -
  show "start_of_day (d * day_us) = d * day_us"
    using day_us_pos by (simp add: start_of_day_def)
  show "end_of_day (d * day_us) = d * day_us + (day_us - 1)"
    using day_us_pos by (simp add: end_of_day_def)
  have e: "d2 * day_us + (day_us - 1) - d1 * day_us = (day_us - 1) + (d2 - d1) * day_us"
    by (simp add: algebra_simps)
  have z: "(day_us - 1) div day_us = 0"
    by (simp add: day_us_def)
  have "((day_us - 1) + (d2 - d1) * day_us) div day_us = (day_us - 1) div day_us + (d2 - d1)"
  proof -
    have nz: "day_us \<noteq> 0" using day_us_pos by simp
    show ?thesis using div_mult_self1 [OF nz, of "day_us - 1" "d2 - d1"] by (simp add: add.commute)
  qed
  then show "delta_days (d2 * day_us + (day_us - 1)) (d1 * day_us) = d2 - d1"
    unfolding delta_days_def e z by simp
  show "(d1 * day_us > d2 * day_us + (day_us - 1)) = (d2 < d1)"
  proof
    assume "d2 * day_us + (day_us - 1) < d1 * day_us"
    then have "d2 * day_us < d1 * day_us" using day_us_pos by linarith
    then show "d2 < d1" using day_us_pos by (simp add: mult_less_cancel_right)
  next
    assume "d2 < d1"
    then have "d2 + 1 \<le> d1" by simp
    then have "(d2 + 1) * day_us \<le> d1 * day_us"
      using day_us_pos by (simp add: mult_right_mono)
    then show "d2 * day_us + (day_us - 1) < d1 * day_us"
      by (simp add: algebra_simps)
  qed
qed

lemma get_date_range_custom_eval:
  assumes "strptime_dmy start_txt = Inr (d1 * day_us)" "strptime_dmy end_txt = Inr (d2 * day_us)"
  shows "get_date_range now1 now2 ''custom'' (Some start_txt) (Some end_txt) =
     (if d2 < d1 then Inl La_fecha_de_inicio_no_puede_ser_posterior
      else if 365 < d2 - d1 + 1 then Inl El_rango_no_puede_superar_365_dias
      else Inr (d1 * day_us, d2 * day_us + (day_us - 1)))"
proof -
  have "start_txt \<noteq> []" "end_txt \<noteq> []"
    using assms strptime_dmy_Nil by auto
  then show ?thesis
    using assms by (simp add: get_date_range_def day_arith)
qed

lemma ej_fechas:
  "strptime_dmy ''01-01-2024'' = Inr (738886 * day_us)"
  "strptime_dmy ''02-01-2024'' = Inr (738887 * day_us)"
  "strptime_dmy ''30-12-2024'' = Inr (739250 * day_us)"
  "strptime_dmy ''31-12-2024'' = Inr (739251 * day_us)"
  by (simp_all add: date_defs)

lemma ej_fecha_regex: "fecha_regex ''02-01-2024''"
  by (simp add: fecha_regex_def digit_val_def)

lemma sumar_items_keeps [simp]:
  "ventas_totales (sumar_items m its) = ventas_totales m"
  "cantidad_ventas (sumar_items m its) = cantidad_ventas m"
  "metodos_pago (sumar_items m its) = metodos_pago m"
  by (induction its arbitrary: m) (simp_all add: Let_def)

lemma sumar_metodos_other: "k \<notin> set ms \<Longrightarrow> sumar_metodos d mp ms k = mp k"
  by (induction ms arbitrary: mp) (auto simp: Let_def split: option.splits)

lemma sumar_metodos_dom: "dom (sumar_metodos d mp ms) = dom mp"
  by (induction ms arbitrary: mp) (auto simp: Let_def split: option.splits)

lemma bucket_ok_iniciales: "bucket_ok metricas_iniciales"
  by (auto simp: bucket_ok_def metricas_iniciales_def metodos_leidos_def split: if_splits)

lemma procesar_venta_same:
  "procesar_venta acc v (moneda_de v) =
     Some ((sumar_items
        ((case acc (moneda_de v) of None \<Rightarrow> metricas_iniciales | Some m \<Rightarrow> m)
           \<lparr>ventas_totales := ventas_totales (case acc (moneda_de v) of None \<Rightarrow> metricas_iniciales | Some m \<Rightarrow> m) + total_venta v,
            cantidad_ventas := cantidad_ventas (case acc (moneda_de v) of None \<Rightarrow> metricas_iniciales | Some m \<Rightarrow> m) + 1\<rparr>)
        (v_items v))
       \<lparr>metodos_pago := sumar_metodos (case v_desglose_pagos v of None \<Rightarrow> Map.empty | Some d \<Rightarrow> d)
          (metodos_pago (case acc (moneda_de v) of None \<Rightarrow> metricas_iniciales | Some m \<Rightarrow> m)) metodos_leidos\<rparr>)"
  by (simp add: procesar_venta_def Let_def)

lemma procesar_venta_other: "k \<noteq> moneda_de v \<Longrightarrow> procesar_venta acc v k = acc k"
  by (simp add: procesar_venta_def Let_def)

lemma sin_pago_not_read: "''sin_pago'' \<notin> set metodos_leidos"
  by (simp add: metodos_leidos_def)

lemma procesar_venta_ok:
  assumes "\<And>k m. acc k = Some m \<Longrightarrow> bucket_ok m" "procesar_venta acc v k = Some m"
  shows "bucket_ok m"
proof (cases "k = moneda_de v")
  case False
  with assms show ?thesis by (simp add: procesar_venta_other)
next
  case True
  let ?m0 = "case acc (moneda_de v) of None \<Rightarrow> metricas_iniciales | Some m \<Rightarrow> m"
  have ok0: "bucket_ok ?m0"
    using assms(1) bucket_ok_iniciales by (cases "acc (moneda_de v)") auto
  from assms(2) True have m: "metodos_pago m = sumar_metodos (case v_desglose_pagos v of None \<Rightarrow> Map.empty | Some d \<Rightarrow> d)
          (metodos_pago ?m0) metodos_leidos"
    by (auto simp: procesar_venta_same)
  show ?thesis
    using ok0 unfolding bucket_ok_def m
    by (simp add: sumar_metodos_other[OF sin_pago_not_read] sumar_metodos_dom)
qed

lemma foldl_procesar_ok:
  "(\<And>k m. acc k = Some m \<Longrightarrow> bucket_ok m) \<Longrightarrow> foldl procesar_venta acc ventas k = Some m \<Longrightarrow> bucket_ok m"
proof (induction ventas arbitrary: acc)
  case Nil
  then show ?case by simp
next
  case (Cons v ventas)
  show ?case
  proof (rule Cons.IH)
    show "\<And>k m. procesar_venta acc v k = Some m \<Longrightarrow> bucket_ok m"
      using procesar_venta_ok Cons.prems(1) by blast
    show "foldl procesar_venta (procesar_venta acc v) ventas k = Some m"
      using Cons.prems(2) by simp
  qed
qed

lemma metricas_iniciales_zero [simp]:
  "cantidad_ventas metricas_iniciales = 0" "ventas_totales metricas_iniciales = 0"
  by (simp_all add: metricas_iniciales_def)




lemma sumar_metodos_apply:
  "distinct ms \<Longrightarrow>
   sumar_metodos d mp ms k =
     (if k \<in> set ms \<and> 0 < (case d k of None \<Rightarrow> 0 | Some x \<Rightarrow> x)
      then map_option (\<lambda>a. a + (case d k of None \<Rightarrow> 0 | Some x \<Rightarrow> x)) (mp k)
      else mp k)"
proof (induction ms arbitrary: mp)
  case Nil
  show ?case by simp
next
  case (Cons m ms)
  then have d: "distinct ms" and nm: "m \<notin> set ms" by simp_all
  let ?valor = "case d m of None \<Rightarrow> 0 | Some x \<Rightarrow> x"
  let ?mp = "if 0 < ?valor then (case mp m of None \<Rightarrow> mp | Some acc \<Rightarrow> mp(m \<mapsto> acc + ?valor)) else mp"
  have step: "sumar_metodos d mp (m # ms) k = sumar_metodos d ?mp ms k"
    by (simp add: Let_def)
  show ?case
  proof (cases "k = m")
    case True
    then show ?thesis
      unfolding step Cons.IH[OF d] using nm by (auto split: option.splits)
  next
    case False
    then show ?thesis
      unfolding step Cons.IH[OF d] by (auto split: option.splits)
  qed
qed

lemma finalizar_metodos_other:
  "k \<noteq> ''sin_pago'' \<Longrightarrow> metodos_pago (finalizar round_div m) k = metodos_pago m k"
  by (simp add: finalizar_def Let_def)

lemma calcular_singleton_metodo:
  "k \<noteq> ''sin_pago'' \<Longrightarrow>
   map_option (\<lambda>m. metodos_pago m k) (calcular_metricas_financieras round_div [v] (moneda_de v)) =
     Some (sumar_metodos (case v_desglose_pagos v of None \<Rightarrow> Map.empty | Some d \<Rightarrow> d)
             (metodos_pago metricas_iniciales) metodos_leidos k)"
  by (simp add: calcular_metricas_financieras_def procesar_venta_same finalizar_metodos_other)

lemma distinct_metodos_leidos: "distinct metodos_leidos"
  by (simp add: metodos_leidos_def)

lemma ej_moneda: "moneda_de ej_venta_efectivo = ''COP''" "moneda_de ej_venta_sin_moneda = ''COP''"
  by (simp_all add: moneda_de_def ej_venta_efectivo_def ej_venta_sin_moneda_def)

lemma ej_metricas_COP:
  "\<exists>m. calcular_metricas_financieras ej_round [ej_venta_efectivo] ''COP'' = Some m"
  by (simp add: calcular_metricas_financieras_def procesar_venta_same [of Map.empty ej_venta_efectivo, unfolded ej_moneda])

section \<open>Claims on the sales dashboard\<close>

text \<open>
  Claim C5 at a one-day custom window, 2024-01-02. The comparison window ends at
  \<open>start - timedelta(days=1)\<close>, the midnight that opens 2024-01-01, and starts at
  the same instant: the query of the previous period matches that single instant. The
  sale paid at 12:00 of 2024-01-01, in the day just before the current window, is in
  neither list.
\<close>

theorem ventana_anterior_misses_previous_day:
  "v_fecha_pago ej_venta_sin_moneda = Some (738886 * day_us + 43200000000) \<and>
   ventas_dashboard_ventanas 0 0 ''custom'' (Some ''02-01-2024'') (Some ''02-01-2024'') VNull
       ej_super_admin [ej_venta_sin_moneda, ej_venta_efectivo] =
     Inr \<lparr>w_start = 738887 * day_us, w_end = 738887 * day_us + (day_us - 1),
          w_dias_periodo = 1,
          w_start_anterior = 738886 * day_us, w_end_anterior = 738886 * day_us,
          w_ventas_actuales = [ej_venta_efectivo], w_ventas_anteriores = []\<rparr>"
proof -
  have g: "get_date_range 0 0 ''custom'' (Some ''02-01-2024'') (Some ''02-01-2024'') =
        Inr (738887 * day_us, 738887 * day_us + (day_us - 1))"
    using get_date_range_custom_eval [OF ej_fechas(2) ej_fechas(2), of 0 0] by simp
  have u: "py_get ej_super_admin ''rol'' = VStr ''super_admin''"
    by (simp add: ej_super_admin_def py_get_def)
  show ?thesis
    unfolding ventas_dashboard_ventanas_def
    by (simp add: ej_fecha_regex u g delta_days_def timedelta_days_def day_us_def Let_def
          get_ventas_periodo_def ej_venta_sin_moneda_def ej_venta_efectivo_def)
qed

text \<open>
  The same holds of every answered request: the comparison window ends one day before
  the start of the current one, at a midnight, so it spans a day less than the current
  window counts, and a sale paid after that midnight and before the current window is
  read by neither query.
\<close>

lemma ventana_anterior_shape:
  assumes "ventas_dashboard_ventanas now1 now2 period start_date end_date sede_id current_user sales = Inr w"
  shows "w_end_anterior w = w_start w - day_us \<and>
         w_end_anterior w - w_start_anterior w = (w_dias_periodo w - 1) * day_us \<and>
         (\<forall>v t. v_fecha_pago v = Some t \<and> w_end_anterior w < t \<and> t < w_start w \<longrightarrow>
                v \<notin> set (w_ventas_actuales w) \<and> v \<notin> set (w_ventas_anteriores w))"
  using assms unfolding ventas_dashboard_ventanas_def Let_def
  by (auto simp: timedelta_days_def get_ventas_periodo_def algebra_simps split: if_splits sum.splits)

text \<open>
  Claim C6, as the code has it. For a custom period whose two dates parse to the days
  \<open>d1\<close> and \<open>d2\<close>, the request fails when the start is after the end, fails when
  the inclusive span \<open>d2 - d1 + 1\<close> exceeds 365 days, and otherwise returns the window
  from the midnight of \<open>d1\<close> to the last microsecond of \<open>d2\<close>, never a shorter one.
\<close>

theorem get_date_range_custom:
  assumes "strptime_dmy start_txt = Inr (d1 * day_us)" "strptime_dmy end_txt = Inr (d2 * day_us)"
  shows "get_date_range now1 now2 ''custom'' (Some start_txt) (Some end_txt) =
     (if d2 < d1 then Inl La_fecha_de_inicio_no_puede_ser_posterior
      else if 365 < d2 - d1 + 1 then Inl El_rango_no_puede_superar_365_dias
      else Inr (d1 * day_us, d2 * day_us + (day_us - 1)))"
  using assms by (rule get_date_range_custom_eval)

theorem get_date_range_custom_witness:
  "strptime_dmy ''01-01-2024'' = Inr (738886 * day_us) \<and>
   strptime_dmy ''30-12-2024'' = Inr (739250 * day_us) \<and>
   strptime_dmy ''31-12-2024'' = Inr (739251 * day_us) \<and>
   get_date_range 0 0 ''custom'' (Some ''01-01-2024'') (Some ''30-12-2024'') =
     Inr (738886 * day_us, 739250 * day_us + (day_us - 1)) \<and>
   get_date_range 0 0 ''custom'' (Some ''31-12-2024'') (Some ''01-01-2024'') =
     Inl La_fecha_de_inicio_no_puede_ser_posterior \<and>
   get_date_range 0 0 ''custom'' (Some ''01-01-2024'') (Some ''31-12-2024'') =
     Inl El_rango_no_puede_superar_365_dias"
  using get_date_range_custom [OF ej_fechas(1) ej_fechas(3), of 0 0]
        get_date_range_custom [OF ej_fechas(4) ej_fechas(1), of 0 0]
        get_date_range_custom [OF ej_fechas(1) ej_fechas(4), of 0 0]
        ej_fechas
  by simp

text \<open>
  Claim C6, as stated, fails: the year 2024 from 01-01 to 31-12 has start before end and
  an inclusive span of 366 days, and is refused.
\<close>

theorem get_date_range_366_counterexample:
  "strptime_dmy ''01-01-2024'' = Inr (738886 * day_us) \<and>
   strptime_dmy ''31-12-2024'' = Inr (739251 * day_us) \<and>
   739251 - 738886 + 1 = (366 :: int) \<and>
   get_date_range 0 0 ''custom'' (Some ''01-01-2024'') (Some ''31-12-2024'') =
     Inl El_rango_no_puede_superar_365_dias"
  using get_date_range_custom_eval [OF ej_fechas(1) ej_fechas(4), of 0 0] ej_fechas by simp

text \<open>
  Claim C7, as the code has it. In every currency bucket of the result the key
  \<open>sin_pago\<close>, which no sale adds to, is absent, and the keys of \<open>metodos_pago\<close>
  are the ten methods that are read, whatever their value.
\<close>

theorem metodos_pago_sparse_sin_pago:
  assumes "calcular_metricas_financieras round_div ventas moneda = Some m"
  shows "metodos_pago m ''sin_pago'' = None \<and> dom (metodos_pago m) = set metodos_leidos"
proof -
  from assms obtain m0 where m0: "foldl procesar_venta Map.empty ventas moneda = Some m0"
    and m: "m = finalizar round_div m0"
    by (auto simp: calcular_metricas_financieras_def)
  have "bucket_ok m0" using foldl_procesar_ok[OF _ m0] by simp
  then show ?thesis
    using sin_pago_not_read by (auto simp: m finalizar_def bucket_ok_def Let_def)
qed

theorem metodos_pago_sparse_sin_pago_witness:
  "\<exists>m. calcular_metricas_financieras ej_round [ej_venta_efectivo] ''COP'' = Some m \<and>
       metodos_pago m ''sin_pago'' = None \<and> dom (metodos_pago m) = set metodos_leidos"
  using ej_metricas_COP metodos_pago_sparse_sin_pago [of ej_round "[ej_venta_efectivo]" "''COP''"]
  by blast

text \<open>
  Claim C7, as stated, fails: after one sale paid in cash, \<open>transferencia\<close> is a key
  of the bucket's \<open>metodos_pago\<close> with value zero.
\<close>

theorem metodos_pago_zero_counterexample:
  "map_option (\<lambda>m. metodos_pago m ''transferencia'')
     (calcular_metricas_financieras ej_round [ej_venta_efectivo] ''COP'') = Some (Some 0) \<and>
   map_option (\<lambda>m. metodos_pago m ''efectivo'')
     (calcular_metricas_financieras ej_round [ej_venta_efectivo] ''COP'') = Some (Some 100)"
proof -
  have t: "metodos_pago metricas_iniciales ''transferencia'' = Some 0"
    and e: "metodos_pago metricas_iniciales ''efectivo'' = Some 0"
    by (simp_all add: metricas_iniciales_def)
  have d: "v_desglose_pagos ej_venta_efectivo = Some [''total'' \<mapsto> 100, ''efectivo'' \<mapsto> 100]"
    by (simp add: ej_venta_efectivo_def)
  have l: "''transferencia'' \<in> set metodos_leidos" "''efectivo'' \<in> set metodos_leidos"
    by (simp_all add: metodos_leidos_def)
  show ?thesis
    using calcular_singleton_metodo [of "''transferencia''" ej_round ej_venta_efectivo]
          calcular_singleton_metodo [of "''efectivo''" ej_round ej_venta_efectivo]
    by (simp add: ej_moneda sumar_metodos_apply [OF distinct_metodos_leidos] d t e l)
qed



end
